theory Spec2Isabelle
  imports Main "HOL-Library.List_Lexorder" "HOL-Library.Char_ord" "HOL-Library.Product_Lexorder"
begin

section \<open>Operation synchronisation: \<open>CollaborationManager\<close> and \<open>OperationalTransform\<close>\<close>

text \<open>
  The embedding follows \<^verbatim>\<open>ComponentCommunicationManager.js\<close>. A change is the object
  that \<^verbatim>\<open>applyChange\<close> destructures (\<^verbatim>\<open>type\<close>, \<^verbatim>\<open>path\<close>, \<^verbatim>\<open>value\<close>,
  \<^verbatim>\<open>attributes\<close>); the record is extensible, so any further field of the JavaScript
  object lives in the extension. Every handler is modelled as one atomic step of the
  single-threaded event loop.
\<close>

datatype seg = Idx nat | Key string

type_synonym path = "seg list"

record ('v, 'a) change =
  ctype :: string
  path :: path
  cvalue :: 'v
  attributes :: 'a

text \<open>
  Modelled from the spec: the source never reads an author or a sequence number of a
  change; the data model of the specification gives every operation the fields
  \<^verbatim>\<open>author\<close> and \<^verbatim>\<open>localSeq\<close>, and its tie-break key is the pair of the two in
  lexical order.
\<close>

record ('v, 'a) operation = "('v, 'a) change" +
  author :: string
  localSeq :: nat

definition tiebreak :: "('v, 'a, 'z) operation_scheme \<Rightarrow> string \<times> nat" where
  "tiebreak x = (author x, localSeq x)"

datatype error =
  WebSocketNotConnected | ApplyFailed | TypeError | RangeError | UnknownCommandType string

datatype ready_state = CONNECTING | OPEN | CLOSING | CLOSED

record 'c change_message =
  m_change :: 'c
  m_author :: string
  m_version :: int

record 'c changeSet =
  cs_documentId :: string
  cs_changes :: "'c list"
  cs_version :: int
  cs_author :: string

record ('c, 'd) collab =
  changeBuffer :: "'c list"
  lastSyncedVersion :: int
  pendingChanges :: "(nat \<times> 'c) list"
  readyState :: ready_state
  sent :: "'c changeSet list"
  syncTimeout :: bool
  documentId :: string
  currentUser :: "string option"
  document :: 'd
  resyncRequests :: nat
  applied :: "'c list"
  sendRaises :: "'c changeSet \<Rightarrow> error option"
  argumentLimit :: nat

text \<open>
  \<open>pendingChanges\<close> is the JavaScript \<^verbatim>\<open>Map\<close> in insertion order; \<open>sent\<close> collects what
  was handed to \<^verbatim>\<open>websocket.send\<close>; \<open>syncTimeout\<close> says whether the flush timer is armed;
  \<open>currentUser\<close> is the id of the user, once there is one. The last two fields record the
  calls of two methods that the source calls but does not define: \<open>resyncRequests\<close> counts
  the calls of \<^verbatim>\<open>requestResync\<close>, \<open>applied\<close> lists the arguments of
  \<^verbatim>\<open>notifyChangeApplied\<close>.

  Two fields stand for the engine the code runs on. \<open>sendRaises\<close> gives the exception
  that \<^verbatim>\<open>JSON.stringify(message)\<close> or \<^verbatim>\<open>websocket.send\<close> raises for a message while the
  socket is open, if any. \<open>argumentLimit\<close> is the largest number of arguments the engine
  accepts in one call: \<^verbatim>\<open>push(...changes)\<close> and \<^verbatim>\<open>unshift(...changes)\<close> pass every
  element of the array as an argument and raise \<^verbatim>\<open>RangeError\<close> beyond it.

  The four methods \<^verbatim>\<open>applyInsert\<close>, \<^verbatim>\<open>applyDelete\<close>, \<^verbatim>\<open>applyUpdate\<close> and
  \<^verbatim>\<open>applyAttributeChange\<close> are called by \<^verbatim>\<open>applyChange\<close> but not defined in the source
  either; they are parameters of the model. Each returns the document it leaves behind and
  the exception it raised, if any.
\<close>

record ('d, 'v, 'a) appliers =
  applyInsert :: "path \<Rightarrow> 'v \<Rightarrow> 'd \<Rightarrow> error option \<times> 'd"
  applyDelete :: "path \<Rightarrow> 'd \<Rightarrow> error option \<times> 'd"
  applyUpdate :: "path \<Rightarrow> 'v \<Rightarrow> 'd \<Rightarrow> error option \<times> 'd"
  applyAttributeChange :: "path \<Rightarrow> 'a \<Rightarrow> 'd \<Rightarrow> error option \<times> 'd"

definition setupChangeTracking :: "('c, 'd) collab \<Rightarrow> ('c, 'd) collab" where
  "setupChangeTracking s = s\<lparr>changeBuffer := [], lastSyncedVersion := 0, pendingChanges := []\<rparr>"

definition transform :: "'c \<Rightarrow> 'c list \<Rightarrow> 'c" where
  "transform change pending = change"

text \<open>
  Modelled from the spec: \<^verbatim>\<open>requestResync\<close> is called by \<^verbatim>\<open>handleRemoteChange\<close> and
  \<^verbatim>\<open>syncChanges\<close> but not defined in the source. The specification has it request a
  resynchronisation of the document; the model counts the requests.
\<close>

definition requestResync :: "('c, 'd) collab \<Rightarrow> ('c, 'd) collab" where
  "requestResync s = s\<lparr>resyncRequests := Suc (resyncRequests s)\<rparr>"

definition applyChange ::
  "('d, 'v, 'a) appliers \<Rightarrow> ('v, 'a, 'z) change_scheme \<Rightarrow> 'd \<Rightarrow> error option \<times> 'd" where
  "applyChange ap c d =
     (if ctype c = ''insert'' then applyInsert ap (path c) (cvalue c) d
      else if ctype c = ''delete'' then applyDelete ap (path c) d
      else if ctype c = ''update'' then applyUpdate ap (path c) (cvalue c) d
      else if ctype c = ''attribute'' then applyAttributeChange ap (path c) (attributes c) d
      else (None, d))"

text \<open>
  \<^verbatim>\<open>handleRemoteChange\<close>: an exception anywhere in the \<^verbatim>\<open>try\<close> block leads to the
  \<^verbatim>\<open>catch\<close> block, which requests a resynchronisation.
\<close>

definition handleRemoteChange ::
  "('d, 'v, 'a) appliers \<Rightarrow> (('v, 'a, 'z) change_scheme, 'd) collab \<Rightarrow>
   ('v, 'a, 'z) change_scheme change_message \<Rightarrow> (('v, 'a, 'z) change_scheme, 'd) collab" where
  "handleRemoteChange ap s message =
     (let transformedChange = transform (m_change message) (map snd (pendingChanges s))
      in case applyChange ap transformedChange (document s) of
           (None, d) \<Rightarrow>
             s\<lparr>document := d, lastSyncedVersion := m_version message,
               applied := applied s @ [transformedChange]\<rparr>
         | (Some e, d) \<Rightarrow> requestResync (s\<lparr>document := d\<rparr>))"

definition scheduleSyncChanges :: "('c, 'd) collab \<Rightarrow> ('c, 'd) collab" where
  "scheduleSyncChanges s = (if \<not> syncTimeout s then s\<lparr>syncTimeout := True\<rparr> else s)"

text \<open>
  \<^verbatim>\<open>queueChanges\<close> returns the exception it raised, if any, and the state it leaves.
\<close>

definition queueChanges :: "('c, 'd) collab \<Rightarrow> 'c list \<Rightarrow> error option \<times> ('c, 'd) collab" where
  "queueChanges s changes =
     (if length changes > argumentLimit s then (Some RangeError, s)
      else (None, scheduleSyncChanges (s\<lparr>changeBuffer := changeBuffer s @ changes\<rparr>)))"

text \<open>
  \<^verbatim>\<open>sendMessage\<close>: with the socket open, the message is serialized and handed to the
  socket, either of which may raise; otherwise the promise is rejected.
\<close>

definition sendMessage :: "('c, 'd) collab \<Rightarrow> 'c changeSet \<Rightarrow> (error + unit) \<times> ('c, 'd) collab" where
  "sendMessage s message =
     (if readyState s = OPEN
      then (case sendRaises s message of
              Some e \<Rightarrow> (Inl e, s)
            | None \<Rightarrow> (Inr (), s\<lparr>sent := sent s @ [message]\<rparr>))
      else (Inl WebSocketNotConnected, s))"

text \<open>
  \<^verbatim>\<open>sendChanges\<close> reads \<^verbatim>\<open>this.currentUser.id\<close> while it builds the message;
  \<^verbatim>\<open>currentUser\<close> is \<^verbatim>\<open>null\<close> until \<^verbatim>\<open>connect\<close> has set it, and reading the \<^verbatim>\<open>id\<close>
  of \<^verbatim>\<open>null\<close> raises before anything is sent.
\<close>

definition sendChanges :: "('c, 'd) collab \<Rightarrow> 'c list \<Rightarrow> (error + unit) \<times> ('c, 'd) collab" where
  "sendChanges s changes =
     (case currentUser s of
        None \<Rightarrow> (Inl TypeError, s)
      | Some user \<Rightarrow>
          sendMessage s \<lparr>cs_documentId = documentId s, cs_changes = changes,
                         cs_version = lastSyncedVersion s, cs_author = user\<rparr>)"

text \<open>
  \<^verbatim>\<open>syncChanges\<close> is asynchronous: between the call of \<^verbatim>\<open>sendChanges\<close> and the code after
  the \<^verbatim>\<open>await\<close> other handlers run. \<open>meanwhile\<close> is the list of changes that
  \<^verbatim>\<open>queueChanges\<close> receives in that gap. A rejected promise and an exception raised while
  the message is built or sent both lead to the \<^verbatim>\<open>catch\<close> block. There
  \<^verbatim>\<open>unshift(...changes)\<close> may raise in turn; then the batch is in no buffer any more,
  \<^verbatim>\<open>requestResync\<close> is not reached, and the exception leaves \<^verbatim>\<open>syncChanges\<close>, which
  returns it together with the state.
\<close>

definition syncChanges :: "('c, 'd) collab \<Rightarrow> 'c list \<Rightarrow> error option \<times> ('c, 'd) collab" where
  "syncChanges s meanwhile =
     (if changeBuffer s = [] then (None, s)
      else
        let changes = changeBuffer s;
            (r, s1) = sendChanges (s\<lparr>changeBuffer := []\<rparr>) changes;
            s2 = (if meanwhile = [] then s1 else snd (queueChanges s1 meanwhile))
        in case r of
             Inr u \<Rightarrow> (None, s2)
           | Inl e \<Rightarrow>
               (if length changes > argumentLimit s2 then (Some RangeError, s2)
                else (None, requestResync (s2\<lparr>changeBuffer := changes @ changeBuffer s2\<rparr>))))"

text \<open>
  Modelled from the spec: the appliers are missing from the source, so concrete runs use
  the simplest document the specification's scenarios speak of, one list of siblings: an
  insert at \<open>[i]\<close> puts the value before position \<open>i\<close>, a delete at \<open>[i]\<close> removes the
  node at \<open>i\<close>, an update at a path that starts with \<open>i\<close> replaces the node at \<open>i\<close>; a path
  that does not resolve raises.
\<close>

fun sibling_insert :: "path \<Rightarrow> 'v \<Rightarrow> 'v list \<Rightarrow> error option \<times> 'v list" where
  "sibling_insert [Idx i] v d = (if i \<le> length d then (None, take i d @ v # drop i d) else (Some ApplyFailed, d))"
| "sibling_insert p v d = (Some ApplyFailed, d)"

fun sibling_delete :: "path \<Rightarrow> 'v list \<Rightarrow> error option \<times> 'v list" where
  "sibling_delete [Idx i] d = (if i < length d then (None, take i d @ drop (Suc i) d) else (Some ApplyFailed, d))"
| "sibling_delete p d = (Some ApplyFailed, d)"

fun sibling_update :: "path \<Rightarrow> 'v \<Rightarrow> 'v list \<Rightarrow> error option \<times> 'v list" where
  "sibling_update (Idx i # p) v d = (if i < length d then (None, d[i := v]) else (Some ApplyFailed, d))"
| "sibling_update p v d = (Some ApplyFailed, d)"

definition sibling_appliers :: "('v list, 'v, 'v) appliers" where
  "sibling_appliers =
     \<lparr>applyInsert = sibling_insert, applyDelete = sibling_delete,
      applyUpdate = sibling_update, applyAttributeChange = sibling_update\<rparr>"

text \<open>
  A state with an open socket, a user, nothing buffered and an engine that serializes and
  sends every message, for the concrete runs below.
\<close>

definition example_collab :: "string \<Rightarrow> string \<Rightarrow> 'd \<Rightarrow> ('c, 'd) collab" where
  "example_collab doc user d =
     \<lparr>changeBuffer = [], lastSyncedVersion = 0, pendingChanges = [], readyState = OPEN,
      sent = [], syncTimeout = False, documentId = doc, currentUser = Some user, document = d,
      resyncRequests = 0, applied = [], sendRaises = (\<lambda>message. None),
      argumentLimit = 65535\<rparr>"

text \<open>The two concurrent inserts of the specification's scenario.\<close>

definition opX :: "(string, string) operation" where
  "opX = \<lparr>ctype = ''insert'', path = [Idx 0], cvalue = ''X'', attributes = [],
          author = ''A'', localSeq = 1\<rparr>"

definition opY :: "(string, string) operation" where
  "opY = \<lparr>ctype = ''insert'', path = [Idx 0], cvalue = ''Y'', attributes = [],
          author = ''B'', localSeq = 1\<rparr>"

text \<open>Client A has applied its own insert of X and still holds it as pending.\<close>

definition clientA :: "((string, string) operation, string list) collab" where
  "clientA = (example_collab ''doc'' ''A'' [''X''])\<lparr>pendingChanges := [(1, opX)]\<rparr>"

definition clientB :: "((string, string) operation, string list) collab" where
  "clientB = (example_collab ''doc'' ''B'' [''Y''])\<lparr>pendingChanges := [(1, opY)]\<rparr>"

definition initializeDocument :: "('c, 'd) collab \<Rightarrow> int \<Rightarrow> ('c, 'd) collab" where
  "initializeDocument s version = s\<lparr>lastSyncedVersion := version\<rparr>"

text \<open>
  The states the collaboration manager can be in: \<^verbatim>\<open>setupChangeTracking\<close> has run, and
  then any of the handlers above, in any order, while the socket opens and closes.
\<close>

inductive reachable_collab ::
  "('d, 'v, 'a) appliers \<Rightarrow> (('v, 'a, 'z) change_scheme, 'd) collab \<Rightarrow> bool"
  for ap :: "('d, 'v, 'a) appliers" where
  rc_setup: "reachable_collab ap (setupChangeTracking s)"
| rc_document: "reachable_collab ap s \<Longrightarrow> reachable_collab ap (initializeDocument s version)"
| rc_socket: "reachable_collab ap s \<Longrightarrow> reachable_collab ap (s\<lparr>readyState := r\<rparr>)"
| rc_queue: "reachable_collab ap s \<Longrightarrow> reachable_collab ap (snd (queueChanges s changes))"
| rc_sync: "reachable_collab ap s \<Longrightarrow> reachable_collab ap (snd (syncChanges s meanwhile))"
| rc_remote: "reachable_collab ap s \<Longrightarrow> reachable_collab ap (handleRemoteChange ap s message)"

text \<open>
  Modelled from the spec: the source has no notion of one path lying above another; the
  specification's ``ancestor of or equal to'' is the prefix order on paths.
\<close>

fun ancestor_or_equal :: "path \<Rightarrow> path \<Rightarrow> bool" where
  "ancestor_or_equal [] q = True"
| "ancestor_or_equal (a # p) [] = False"
| "ancestor_or_equal (a # p) (b # q) = (a = b \<and> ancestor_or_equal p q)"

text \<open>
  The delete and the update of the specification's second scenario. Client A has deleted
  the node at index 2 of \<open>[n0, n1, n2, n3]\<close> and holds the delete as pending.
\<close>

definition opDel :: "(string, string) operation" where
  "opDel = \<lparr>ctype = ''delete'', path = [Idx 2], cvalue = [], attributes = [],
            author = ''A'', localSeq = 1\<rparr>"

definition opUpd :: "(string, string) operation" where
  "opUpd = \<lparr>ctype = ''update'', path = [Idx 2, Key ''attributes'', Key ''color''],
            cvalue = ''red'', attributes = [], author = ''B'', localSeq = 1\<rparr>"

definition deleterA :: "((string, string) operation, string list) collab" where
  "deleterA = (example_collab ''doc'' ''A'' [''n0'', ''n1'', ''n3''])\<lparr>pendingChanges := [(1, opDel)]\<rparr>"

text \<open>Two local operations with consecutive sequence numbers, queued and flushed.\<close>

definition op4 :: "(string, string) operation" where
  "op4 = \<lparr>ctype = ''insert'', path = [Idx 0], cvalue = ''P'', attributes = [],
          author = ''A'', localSeq = 4\<rparr>"

definition op5 :: "(string, string) operation" where
  "op5 = \<lparr>ctype = ''insert'', path = [Idx 1], cvalue = ''Q'', attributes = [],
          author = ''A'', localSeq = 5\<rparr>"

definition queued :: "((string, string) operation, string list) collab" where
  "queued =
     snd (queueChanges (setupChangeTracking (example_collab ''doc'' ''A'' [''P'', ''Q'']))
            [op4, op5])"

definition flushed :: "((string, string) operation, string list) collab" where
  "flushed = snd (syncChanges queued [])"

definition acked5 :: "((string, string) operation, string list) collab" where
  "acked5 = handleRemoteChange sibling_appliers flushed
              \<lparr>m_change = op5, m_author = ''A'', m_version = 12\<rparr>"

definition offline :: "((string, string) operation, string list) collab" where
  "offline = queued\<lparr>readyState := CLOSED\<rparr>"


section \<open>Command history: \<open>UndoRedoManager\<close>\<close>

text \<open>
  A command is the object built by \<^verbatim>\<open>createCommand\<close> or \<^verbatim>\<open>createBatchCommand\<close>. Its
  \<^verbatim>\<open>execute\<close> and \<^verbatim>\<open>undo\<close> closures act on everything outside the manager (the DOM and
  the objects they capture), which is the world \<open>'w\<close>; they return the truth value the
  manager tests and the world they leave behind. A batch command owns its
  \<^verbatim>\<open>operations\<close> array, which its \<^verbatim>\<open>undo\<close> closure reverses in place, so undoing a
  command also yields the command as it is afterwards. The history holds its commands by
  value: an entry that \<^verbatim>\<open>undo\<close> writes back is the same command object after its own
  routine has run. This describes the histories in which every entry is an object of its
  own and no \<^verbatim>\<open>operations\<close> array is shared between two batch commands; where a caller
  puts one command object or one array into the history twice, the in-place reversal
  shows in both places in the code and in the selected entry only here. Closures that
  raise or that call back into the manager are outside the model.

  \<^verbatim>\<open>createCommand\<close> stores a stamped copy of the state it is given and lets the closures
  capture the state itself, so a command keeps both: the stamped copy (second argument of
  \<open>Command\<close>) and the closures over the original.
\<close>

type_synonym 'w routine = "'w \<Rightarrow> bool \<times> 'w"

record 'r stamped =
  payload :: 'r
  timestamp :: int

datatype ('r, 'w) command =
    Command string "'r stamped" "'w routine" "'w routine"
      "('r stamped \<Rightarrow> 'r stamped \<Rightarrow> 'r stamped option) option"
  | BatchCommand "('r, 'w) command list" int

fun cmd_type :: "('r, 'w) command \<Rightarrow> string" where
  "cmd_type (Command t st ex un cb) = t"
| "cmd_type (BatchCommand ops ts) = ''batch''"

record ('r, 'w) factory =
  f_execute :: "'r \<Rightarrow> 'w routine"
  f_undo :: "'r \<Rightarrow> 'w routine"
  f_combine :: "('r stamped \<Rightarrow> 'r stamped \<Rightarrow> 'r stamped option) option"

text \<open>
  The state of a text edit and the part of the DOM it touches. Nodes are identified by
  numbers (object identity); each node's \<^verbatim>\<open>textContent\<close> is a cell of its own (what a
  text has to do with the text of the nodes around it is left to the browser and not
  modelled). Both records are extensible: other factories read other fields, and the rest
  of the world is the extension.
\<close>

record text_edit =
  element :: nat
  newText :: string
  oldText :: string

record dom =
  textContent :: "nat \<Rightarrow> string"

definition textEdit_execute :: "'x text_edit_scheme \<Rightarrow> 'y dom_scheme routine" where
  "textEdit_execute state w =
     (True, w\<lparr>textContent := (textContent w)(element state := newText state)\<rparr>)"

definition textEdit_undo :: "'x text_edit_scheme \<Rightarrow> 'y dom_scheme routine" where
  "textEdit_undo state w =
     (True, w\<lparr>textContent := (textContent w)(element state := oldText state)\<rparr>)"

definition textEdit_combine ::
  "'x text_edit_scheme stamped \<Rightarrow> 'x text_edit_scheme stamped \<Rightarrow> 'x text_edit_scheme stamped option" where
  "textEdit_combine oldState newState =
     (if timestamp newState - timestamp oldState < 1000
         \<and> element (payload oldState) = element (payload newState)
      then Some (newState\<lparr>payload := (payload newState)\<lparr>oldText := oldText (payload oldState)\<rparr>\<rparr>)
      else None)"

definition textEdit_factory :: "('x text_edit_scheme, 'y dom_scheme) factory" where
  "textEdit_factory =
     \<lparr>f_execute = textEdit_execute, f_undo = textEdit_undo, f_combine = Some textEdit_combine\<rparr>"

record ('r, 'w) batch =
  b_type :: string
  b_operations :: "('r, 'w) command list"
  b_timestamp :: int

record snapshot =
  historyIndex :: int
  s_timestamp :: int

record history_event =
  e_canUndo :: bool
  e_canRedo :: bool
  e_historySize :: nat
  e_currentIndex :: int

text \<open>
  The manager's fields, the world its commands act on, and the \<^verbatim>\<open>historychange\<close> events
  it has dispatched so far.
\<close>

record ('r, 'w) manager =
  history :: "('r, 'w) command list"
  currentIndex :: int
  maxHistorySize :: int
  batchOperations :: "string \<rightharpoonup> ('r, 'w) batch"
  isRecording :: bool
  snapshots :: "string \<rightharpoonup> snapshot"
  commandFactories :: "string \<rightharpoonup> ('r, 'w) factory"
  world :: 'w
  events :: "history_event list"

text \<open>
  The constructor registers five factories. The text-edit factory is modelled above; the
  other four are parameters.
\<close>

definition UndoRedoManager ::
  "('x text_edit_scheme, 'y dom_scheme) factory \<Rightarrow> ('x text_edit_scheme, 'y dom_scheme) factory \<Rightarrow>
   ('x text_edit_scheme, 'y dom_scheme) factory \<Rightarrow> ('x text_edit_scheme, 'y dom_scheme) factory \<Rightarrow>
   'y dom_scheme \<Rightarrow> ('x text_edit_scheme, 'y dom_scheme) manager" where
  "UndoRedoManager styleChange elementAdd elementRemove attributeChange w =
     \<lparr>history = [], currentIndex = - 1, maxHistorySize = 100, batchOperations = Map.empty,
      isRecording = False, snapshots = Map.empty,
      commandFactories =
        [''textEdit'' \<mapsto> textEdit_factory, ''styleChange'' \<mapsto> styleChange,
         ''elementAdd'' \<mapsto> elementAdd, ''elementRemove'' \<mapsto> elementRemove,
         ''attributeChange'' \<mapsto> attributeChange],
      world = w, events = []\<rparr>"

definition registerCommand ::
  "('r, 'w) manager \<Rightarrow> string \<Rightarrow> ('r, 'w) factory \<Rightarrow> ('r, 'w) manager" where
  "registerCommand s type commandFactory =
     s\<lparr>commandFactories := (commandFactories s)(type \<mapsto> commandFactory)\<rparr>"

definition createCommand ::
  "('r, 'w) manager \<Rightarrow> string \<Rightarrow> 'r \<Rightarrow> int \<Rightarrow> error + ('r, 'w) command" where
  "createCommand s type state now =
     (case commandFactories s type of
        None \<Rightarrow> Inl (UnknownCommandType type)
      | Some factory \<Rightarrow>
          Inr (Command type \<lparr>payload = state, timestamp = now\<rparr>
                 (f_execute factory state) (f_undo factory state) (f_combine factory)))"

text \<open>
  Running a command. \<^verbatim>\<open>Array.prototype.every\<close> calls the closures from the front and
  stops at the first one that returns false. The batch's \<^verbatim>\<open>undo\<close> reverses the array
  in place first, so the array stays reversed whatever the outcome.
\<close>

fun cmd_execute :: "('r, 'w) command \<Rightarrow> 'w \<Rightarrow> bool \<times> 'w"
  and every_execute :: "('r, 'w) command list \<Rightarrow> 'w \<Rightarrow> bool \<times> 'w" where
  "cmd_execute (Command t st ex un cb) w = ex w"
| "cmd_execute (BatchCommand ops ts) w = every_execute ops w"
| "every_execute [] w = (True, w)"
| "every_execute (c # cs) w =
     (case cmd_execute c w of
        (True, w') \<Rightarrow> every_execute cs w'
      | (False, w') \<Rightarrow> (False, w'))"

function (sequential) cmd_undo :: "('r, 'w) command \<Rightarrow> 'w \<Rightarrow> bool \<times> ('r, 'w) command \<times> 'w"
  and every_undo :: "('r, 'w) command list \<Rightarrow> 'w \<Rightarrow> bool \<times> ('r, 'w) command list \<times> 'w" where
  "cmd_undo (Command t st ex un cb) w =
     (case un w of (ok, w') \<Rightarrow> (ok, Command t st ex un cb, w'))"
| "cmd_undo (BatchCommand ops ts) w =
     (case every_undo (rev ops) w of (ok, ops', w') \<Rightarrow> (ok, BatchCommand ops' ts, w'))"
| "every_undo [] w = (True, [], w)"
| "every_undo (c # cs) w =
     (case cmd_undo c w of
        (True, c', w') \<Rightarrow>
          (case every_undo cs w' of (ok, cs', w'') \<Rightarrow> (ok, c' # cs', w''))
      | (False, c', w') \<Rightarrow> (False, c' # cs, w'))"
  by pat_completeness auto
termination
  by (relation "measure (\<lambda>x. case x of Inl (c, w) \<Rightarrow> 2 * size c
                                      | Inr (cs, w) \<Rightarrow> 2 * size_list size cs + 1)")
     (auto simp: size_list_conv_sum_list rev_map[symmetric])

definition canUndo :: "('r, 'w) manager \<Rightarrow> bool" where
  "canUndo s = (currentIndex s \<ge> 0)"

definition canRedo :: "('r, 'w) manager \<Rightarrow> bool" where
  "canRedo s = (currentIndex s < int (length (history s)) - 1)"

definition notifyHistoryChange :: "('r, 'w) manager \<Rightarrow> ('r, 'w) manager" where
  "notifyHistoryChange s =
     s\<lparr>events := events s @
        [\<lparr>e_canUndo = canUndo s, e_canRedo = canRedo s,
          e_historySize = length (history s), e_currentIndex = currentIndex s\<rparr>]\<rparr>"

text \<open>
  Reading a JavaScript array outside its range gives \<^verbatim>\<open>undefined\<close>;
  \<^verbatim>\<open>splice(start)\<close> removes everything from \<open>start\<close> on, a negative \<open>start\<close> counting
  from the end.
\<close>

definition nth_opt :: "'a list \<Rightarrow> int \<Rightarrow> 'a option" where
  "nth_opt xs i = (if 0 \<le> i \<and> i < int (length xs) then Some (xs ! nat i) else None)"

definition splice_from :: "'a list \<Rightarrow> int \<Rightarrow> 'a list" where
  "splice_from xs start =
     (let n = int (length xs);
          k = (if start < 0 then max (n + start) 0 else min start n)
      in take (nat k) xs)"

text \<open>
  \<^verbatim>\<open>execute\<close> first discards the entries after the cursor (\<open>discardRedo\<close>). Then comes
  the attempt to combine with the previous command. The previous command's
  own \<^verbatim>\<open>combine\<close> is applied to the two stamped states; the result replaces the previous
  command's \<^verbatim>\<open>state\<close> and nothing else of it. A batch command has no \<^verbatim>\<open>combine\<close>. (A
  factory registered under the name \<^verbatim>\<open>batch\<close> with a \<^verbatim>\<open>combine\<close> of its own would be
  handed a batch's state, which this typed model leaves out.)
\<close>

fun try_combine :: "('r, 'w) command option \<Rightarrow> ('r, 'w) command \<Rightarrow> ('r, 'w) command option" where
  "try_combine (Some (Command t st ex un (Some combine))) (Command t' st' ex' un' cb') =
     (if t = t'
      then (case combine st st' of
              Some combinedState \<Rightarrow> Some (Command t combinedState ex un (Some combine))
            | None \<Rightarrow> None)
      else None)"
| "try_combine prev command = None"

definition discardRedo :: "('r, 'w) manager \<Rightarrow> ('r, 'w) manager" where
  "discardRedo s =
     (if currentIndex s < int (length (history s)) - 1
      then s\<lparr>history := splice_from (history s) (currentIndex s + 1)\<rparr>
      else s)"

definition execute :: "('r, 'w) manager \<Rightarrow> ('r, 'w) command \<Rightarrow> ('r, 'w) manager" where
  "execute s command =
     (let s1 = discardRedo s
      in case try_combine (nth_opt (history s1) (currentIndex s1)) command of
           Some prevCommand \<Rightarrow>
             s1\<lparr>history := (history s1)[nat (currentIndex s1) := prevCommand],
                world := snd (cmd_execute command (world s1))\<rparr>
         | None \<Rightarrow>
             (case cmd_execute command (world s1) of
                (True, w) \<Rightarrow>
                  (let s2 = s1\<lparr>world := w, history := history s1 @ [command],
                                currentIndex := currentIndex s1 + 1\<rparr>;
                       s3 = (if int (length (history s2)) > maxHistorySize s2
                             then s2\<lparr>history := tl (history s2),
                                     currentIndex := currentIndex s2 - 1\<rparr>
                             else s2)
                   in notifyHistoryChange s3)
              | (False, w) \<Rightarrow> s1\<lparr>world := w\<rparr>))"

definition undo :: "('r, 'w) manager \<Rightarrow> (error + bool) \<times> ('r, 'w) manager" where
  "undo s =
     (if \<not> canUndo s then (Inr False, s)
      else case nth_opt (history s) (currentIndex s) of
             None \<Rightarrow> (Inl TypeError, s)
           | Some command \<Rightarrow>
               (case cmd_undo command (world s) of
                  (True, command', w) \<Rightarrow>
                    (Inr True,
                     notifyHistoryChange
                       (s\<lparr>history := (history s)[nat (currentIndex s) := command'],
                          world := w, currentIndex := currentIndex s - 1\<rparr>))
                | (False, command', w) \<Rightarrow>
                    (Inr False,
                     s\<lparr>history := (history s)[nat (currentIndex s) := command'], world := w\<rparr>)))"

definition redo :: "('r, 'w) manager \<Rightarrow> (error + bool) \<times> ('r, 'w) manager" where
  "redo s =
     (if \<not> canRedo s then (Inr False, s)
      else case nth_opt (history s) (currentIndex s + 1) of
             None \<Rightarrow> (Inl TypeError, s)
           | Some command \<Rightarrow>
               (case cmd_execute command (world s) of
                  (True, w) \<Rightarrow>
                    (Inr True,
                     notifyHistoryChange (s\<lparr>world := w, currentIndex := currentIndex s + 1\<rparr>))
                | (False, w) \<Rightarrow> (Inr False, s\<lparr>world := w\<rparr>)))"

definition startBatch :: "('r, 'w) manager \<Rightarrow> string \<Rightarrow> string \<Rightarrow> int \<Rightarrow> ('r, 'w) manager" where
  "startBatch s batchId type now =
     s\<lparr>batchOperations := (batchOperations s)
         (batchId \<mapsto> \<lparr>b_type = type, b_operations = [], b_timestamp = now\<rparr>)\<rparr>"

definition addToBatch :: "('r, 'w) manager \<Rightarrow> string \<Rightarrow> ('r, 'w) command \<Rightarrow> ('r, 'w) manager" where
  "addToBatch s batchId command =
     (case batchOperations s batchId of
        None \<Rightarrow> s
      | Some batch \<Rightarrow>
          s\<lparr>batchOperations := (batchOperations s)
              (batchId \<mapsto> batch\<lparr>b_operations := b_operations batch @ [command]\<rparr>)\<rparr>)"

text \<open>
  \<^verbatim>\<open>batchTypes\<close> is an object literal with the members \<^verbatim>\<open>drag\<close>, \<^verbatim>\<open>resize\<close> and
  \<^verbatim>\<open>default\<close>; \<^verbatim>\<open>this.batchTypes[batch.type]\<close> also finds what the literal inherits
  from \<^verbatim>\<open>Object.prototype\<close>. Called as a plain function in strict code,
  \<^verbatim>\<open>constructor\<close> returns the array it is given, \<^verbatim>\<open>toString\<close> returns a string, and
  every other inherited member raises \<^verbatim>\<open>TypeError\<close> (\<^verbatim>\<open>__proto__\<close> is an object and
  cannot be called, the others refuse an undefined receiver). A name that is not found
  gives \<^verbatim>\<open>undefined\<close>, for which \<^verbatim>\<open>endBatch\<close> takes the default combiner.
\<close>

datatype 'a combiner = Combines "'a list \<Rightarrow> 'a list" | GivesString | Raises

definition batchTypes :: "string \<Rightarrow> 'a combiner option" where
  "batchTypes type =
     (if type = ''drag'' \<or> type = ''resize''
      then Some (Combines (\<lambda>operations.
                   if length operations > 0 then [last operations] else []))
      else if type = ''default'' \<or> type = ''constructor''
      then Some (Combines (\<lambda>operations. operations))
      else if type = ''toString'' then Some GivesString
      else if type \<in> set [''__proto__'', ''valueOf'', ''toLocaleString'', ''hasOwnProperty'',
                          ''isPrototypeOf'', ''propertyIsEnumerable'', ''__defineGetter__'',
                          ''__defineSetter__'', ''__lookupGetter__'', ''__lookupSetter__'']
      then Some Raises
      else None)"

definition createBatchCommand :: "('r, 'w) command list \<Rightarrow> int \<Rightarrow> ('r, 'w) command" where
  "createBatchCommand operations now = BatchCommand operations now"

text \<open>
  \<^verbatim>\<open>endBatch\<close> returns the exception it raised, if any, and the state it leaves. With the
  string that \<^verbatim>\<open>toString\<close> returns in place of the operations, the batch command is
  built and handed to \<^verbatim>\<open>execute\<close>, which discards the entries after the cursor and then
  fails when the command's \<^verbatim>\<open>execute\<close> closure calls \<^verbatim>\<open>every\<close> on the string. After
  an exception the batch stays in \<^verbatim>\<open>batchOperations\<close>.
\<close>

definition endBatch :: "('r, 'w) manager \<Rightarrow> string \<Rightarrow> int \<Rightarrow> error option \<times> ('r, 'w) manager" where
  "endBatch s batchId now =
     (case batchOperations s batchId of
        None \<Rightarrow> (None, s)
      | Some batch \<Rightarrow>
          (case (case batchTypes (b_type batch) of
                   None \<Rightarrow> Combines (\<lambda>operations. operations)
                 | Some combiner \<Rightarrow> combiner) of
             Combines combiner \<Rightarrow>
               (let operations = combiner (b_operations batch);
                    s1 = (if length operations > 0
                          then execute s (createBatchCommand operations now)
                          else s)
                in (None, s1\<lparr>batchOperations := (batchOperations s1)(batchId := None)\<rparr>))
           | GivesString \<Rightarrow> (Some TypeError, discardRedo s)
           | Raises \<Rightarrow> (Some TypeError, s)))"

definition createSnapshot :: "('r, 'w) manager \<Rightarrow> string \<Rightarrow> int \<Rightarrow> string \<times> ('r, 'w) manager" where
  "createSnapshot s snapshotId now =
     (snapshotId,
      s\<lparr>snapshots := (snapshots s)
          (snapshotId \<mapsto> \<lparr>historyIndex = currentIndex s, s_timestamp = now\<rparr>)\<rparr>)"

text \<open>
  The two \<^verbatim>\<open>while\<close> statements of \<^verbatim>\<open>restoreSnapshot\<close> ignore what \<^verbatim>\<open>undo\<close> and \<^verbatim>\<open>redo\<close> return and
  may run forever: not returning is the value \<open>None\<close>.
\<close>

partial_function (option) undo_loop ::
  "('r, 'w) manager \<Rightarrow> int \<Rightarrow> ((error + unit) \<times> ('r, 'w) manager) option" where
  "undo_loop s target =
     (if currentIndex s > target
      then (case undo s of
              (Inl e, s') \<Rightarrow> Some (Inl e, s')
            | (Inr b, s') \<Rightarrow> undo_loop s' target)
      else Some (Inr (), s))"

partial_function (option) redo_loop ::
  "('r, 'w) manager \<Rightarrow> int \<Rightarrow> ((error + unit) \<times> ('r, 'w) manager) option" where
  "redo_loop s target =
     (if currentIndex s < target
      then (case redo s of
              (Inl e, s') \<Rightarrow> Some (Inl e, s')
            | (Inr b, s') \<Rightarrow> redo_loop s' target)
      else Some (Inr (), s))"

definition restoreSnapshot ::
  "('r, 'w) manager \<Rightarrow> string \<Rightarrow> ((error + bool) \<times> ('r, 'w) manager) option" where
  "restoreSnapshot s snapshotId =
     (case snapshots s snapshotId of
        None \<Rightarrow> Some (Inr False, s)
      | Some snapshot \<Rightarrow>
          (case undo_loop s (historyIndex snapshot) of
             None \<Rightarrow> None
           | Some (Inl e, s1) \<Rightarrow> Some (Inl e, s1)
           | Some (Inr u, s1) \<Rightarrow>
               (case redo_loop s1 (historyIndex snapshot) of
                  None \<Rightarrow> None
                | Some (Inl e, s2) \<Rightarrow> Some (Inl e, s2)
                | Some (Inr u', s2) \<Rightarrow> Some (Inr True, s2))))"

definition clearHistory :: "('r, 'w) manager \<Rightarrow> ('r, 'w) manager" where
  "clearHistory s = notifyHistoryChange (s\<lparr>history := [], currentIndex := - 1\<rparr>)"

text \<open>
  \<^verbatim>\<open>setMaxHistorySize\<close>: \<^verbatim>\<open>shift\<close> on an empty array removes nothing, so the loop does
  not end for a negative size.
\<close>

partial_function (option) shift_loop :: "('r, 'w) manager \<Rightarrow> int \<Rightarrow> ('r, 'w) manager option" where
  "shift_loop s n =
     (if int (length (history s)) > n
      then shift_loop (s\<lparr>history := tl (history s), currentIndex := currentIndex s - 1\<rparr>) n
      else Some s)"

definition setMaxHistorySize :: "('r, 'w) manager \<Rightarrow> int \<Rightarrow> ('r, 'w) manager option" where
  "setMaxHistorySize s n = shift_loop (s\<lparr>maxHistorySize := n\<rparr>) n"

text \<open>
  The precondition of \<^verbatim>\<open>restoreSnapshot\<close>: the next \<open>n\<close> calls of \<^verbatim>\<open>undo\<close> (of
  \<^verbatim>\<open>redo\<close>) return true.
\<close>

fun undo_calls_succeed :: "nat \<Rightarrow> ('r, 'w) manager \<Rightarrow> bool" where
  "undo_calls_succeed 0 s = True"
| "undo_calls_succeed (Suc n) s =
     (case undo s of (Inr True, s') \<Rightarrow> undo_calls_succeed n s' | _ \<Rightarrow> False)"

fun redo_calls_succeed :: "nat \<Rightarrow> ('r, 'w) manager \<Rightarrow> bool" where
  "redo_calls_succeed 0 s = True"
| "redo_calls_succeed (Suc n) s =
     (case redo s of (Inr True, s') \<Rightarrow> redo_calls_succeed n s' | _ \<Rightarrow> False)"

text \<open>
  The states of the history that calls of the public methods lead to from a state \<open>s0\<close>.
  A call \<^verbatim>\<open>setMaxHistorySize(n)\<close> is admitted when it returns and drops no more entries
  than have been applied.
\<close>

inductive reachable :: "('r, 'w) manager \<Rightarrow> ('r, 'w) manager \<Rightarrow> bool"
  for s0 :: "('r, 'w) manager" where
  r_new: "reachable s0 s0"
| r_execute: "reachable s0 s \<Longrightarrow> reachable s0 (execute s c)"
| r_undo: "reachable s0 s \<Longrightarrow> reachable s0 (snd (undo s))"
| r_redo: "reachable s0 s \<Longrightarrow> reachable s0 (snd (redo s))"
| r_startBatch: "reachable s0 s \<Longrightarrow> reachable s0 (startBatch s batchId type now)"
| r_addToBatch: "reachable s0 s \<Longrightarrow> reachable s0 (addToBatch s batchId c)"
| r_endBatch: "reachable s0 s \<Longrightarrow> reachable s0 (snd (endBatch s batchId now))"
| r_clearHistory: "reachable s0 s \<Longrightarrow> reachable s0 (clearHistory s)"
| r_setMaxHistorySize:
    "reachable s0 s \<Longrightarrow> setMaxHistorySize s n = Some s' \<Longrightarrow>
     int (length (history s)) - n \<le> currentIndex s + 1 \<Longrightarrow> reachable s0 s'"

definition cursor_ok :: "('r, 'w) manager \<Rightarrow> bool" where
  "cursor_ok s = (- 1 \<le> currentIndex s \<and> currentIndex s < int (length (history s)))"

subsection \<open>Concrete commands and states\<close>

text \<open>
  A manager over a document in which every node reads \<open>a\<close>; the four factories that are
  parameters of the constructor are instantiated with one that does nothing.
\<close>

definition plain_factory :: "(text_edit, dom) factory" where
  "plain_factory =
     \<lparr>f_execute = (\<lambda>state w. (True, w)), f_undo = (\<lambda>state w. (True, w)), f_combine = None\<rparr>"

definition manager0 :: "(text_edit, dom) manager" where
  "manager0 = UndoRedoManager plain_factory plain_factory plain_factory plain_factory
                \<lparr>textContent = (\<lambda>n. ''a'')\<rparr>"

text \<open>
  Three text edits of node 0, from \<open>a\<close> to \<open>b\<close>, from \<open>b\<close> to \<open>c\<close> and from \<open>c\<close> to
  \<open>d\<close>, stamped at 0, 500 and 900 ms.
\<close>

definition edit_ab :: "(text_edit, dom) command" where
  "edit_ab =
     Command ''textEdit''
       \<lparr>payload = \<lparr>element = 0, newText = ''b'', oldText = ''a''\<rparr>, timestamp = 0\<rparr>
       (textEdit_execute \<lparr>element = 0, newText = ''b'', oldText = ''a''\<rparr>)
       (textEdit_undo \<lparr>element = 0, newText = ''b'', oldText = ''a''\<rparr>)
       (Some textEdit_combine)"

definition edit_bc :: "(text_edit, dom) command" where
  "edit_bc =
     Command ''textEdit''
       \<lparr>payload = \<lparr>element = 0, newText = ''c'', oldText = ''b''\<rparr>, timestamp = 500\<rparr>
       (textEdit_execute \<lparr>element = 0, newText = ''c'', oldText = ''b''\<rparr>)
       (textEdit_undo \<lparr>element = 0, newText = ''c'', oldText = ''b''\<rparr>)
       (Some textEdit_combine)"

definition edit_cd :: "(text_edit, dom) command" where
  "edit_cd =
     Command ''textEdit''
       \<lparr>payload = \<lparr>element = 0, newText = ''d'', oldText = ''c''\<rparr>, timestamp = 900\<rparr>
       (textEdit_execute \<lparr>element = 0, newText = ''d'', oldText = ''c''\<rparr>)
       (textEdit_undo \<lparr>element = 0, newText = ''d'', oldText = ''c''\<rparr>)
       (Some textEdit_combine)"

text \<open>
  Commands of a registered custom type: \<open>mark\<close> always succeeds and changes nothing;
  the \<^verbatim>\<open>undo\<close> of \<open>stuck\<close> always returns false; the \<^verbatim>\<open>undo\<close> of \<open>flaky\<close> returns false
  until it has run once; the \<^verbatim>\<open>execute\<close> of \<open>once\<close> returns true the first time only.
\<close>

definition mark :: "(text_edit, dom) command" where
  "mark =
     Command ''custom'' \<lparr>payload = \<lparr>element = 1, newText = [], oldText = []\<rparr>, timestamp = 0\<rparr>
       (\<lambda>w. (True, w)) (\<lambda>w. (True, w)) None"

definition stuck :: "(text_edit, dom) command" where
  "stuck =
     Command ''custom'' \<lparr>payload = \<lparr>element = 1, newText = [], oldText = []\<rparr>, timestamp = 0\<rparr>
       (\<lambda>w. (True, w)) (\<lambda>w. (False, w)) None"

definition flaky :: "(text_edit, dom) command" where
  "flaky =
     Command ''custom'' \<lparr>payload = \<lparr>element = 9, newText = [], oldText = []\<rparr>, timestamp = 0\<rparr>
       (\<lambda>w. (True, w))
       (\<lambda>w. (textContent w 9 = ''ready'', w\<lparr>textContent := (textContent w)(9 := ''ready'')\<rparr>))
       None"

definition once :: "(text_edit, dom) command" where
  "once =
     Command ''custom'' \<lparr>payload = \<lparr>element = 9, newText = [], oldText = []\<rparr>, timestamp = 0\<rparr>
       (\<lambda>w. (textContent w 9 \<noteq> ''used'', w\<lparr>textContent := (textContent w)(9 := ''used'')\<rparr>))
       (\<lambda>w. (True, w))
       None"

definition batched :: "(text_edit, dom) manager" where
  "batched =
     snd (endBatch (addToBatch (addToBatch (startBatch manager0 ''g'' ''default'' 0) ''g'' edit_ab)
                      ''g'' edit_bc) ''g'' 1)"

definition half_batch :: "(text_edit, dom) manager" where
  "half_batch =
     snd (endBatch (addToBatch (addToBatch (startBatch manager0 ''g'' ''default'' 0) ''g'' stuck)
                      ''g'' edit_ab) ''g'' 1)"

text \<open>
  A text edit of node 0 that records \<open>zzz\<close> as the old text although the node reads
  \<open>a\<close>, and a manager whose history may hold no entry at all.
\<close>

definition edit_zb :: "(text_edit, dom) command" where
  "edit_zb =
     Command ''textEdit''
       \<lparr>payload = \<lparr>element = 0, newText = ''b'', oldText = ''zzz''\<rparr>, timestamp = 0\<rparr>
       (textEdit_execute \<lparr>element = 0, newText = ''b'', oldText = ''zzz''\<rparr>)
       (textEdit_undo \<lparr>element = 0, newText = ''b'', oldText = ''zzz''\<rparr>)
       (Some textEdit_combine)"

definition capped :: "(text_edit, dom) manager" where
  "capped = manager0\<lparr>maxHistorySize := 0\<rparr>"

definition stalled :: "(text_edit, dom) manager" where
  "stalled = execute manager0 stuck"

definition undone :: "(text_edit, dom) manager" where
  "undone = snd (undo (execute manager0 edit_ab))"

definition once_undone :: "(text_edit, dom) manager" where
  "once_undone = snd (undo (execute manager0 once))"

definition snapped :: "(text_edit, dom) manager" where
  "snapped = execute (execute (snd (createSnapshot manager0 ''snap'' 0)) edit_ab) mark"

definition truncated :: "(text_edit, dom) manager" where
  "truncated = clearHistory (snd (createSnapshot (execute manager0 edit_ab) ''snap'' 0))"

definition jammed :: "(text_edit, dom) manager" where
  "jammed = execute (snd (createSnapshot manager0 ''snap'' 0)) stuck"

definition retried :: "(text_edit, dom) manager" where
  "retried = execute (snd (createSnapshot manager0 ''snap'' 0)) flaky"

section \<open>Auxiliary facts\<close>

lemmas run_defs =
  endBatch_def addToBatch_def startBatch_def UndoRedoManager_def batchTypes_def
  createBatchCommand_def discardRedo_def execute_def nth_opt_def Let_def
  notifyHistoryChange_def
  textEdit_execute_def textEdit_undo_def textEdit_combine_def canUndo_def canRedo_def
  undo_def redo_def createSnapshot_def clearHistory_def

lemmas sync_defs =
  setupChangeTracking_def queueChanges_def scheduleSyncChanges_def syncChanges_def
  sendChanges_def sendMessage_def requestResync_def handleRemoteChange_def applyChange_def
  transform_def Let_def

subsection \<open>\<^verbatim>\<open>every\<close> stops at the first failure\<close>

lemma every_execute_stops:
  "every_execute pre w = (True, w1) \<Longrightarrow> cmd_execute f w1 = (False, w2) \<Longrightarrow>
   every_execute (pre @ f # post) w = (False, w2)"
  by (induction pre arbitrary: w) (auto split: prod.splits bool.splits)

lemma every_undo_stops:
  "every_undo pre w = (True, pre', w1) \<Longrightarrow> cmd_undo f w1 = (False, f', w2) \<Longrightarrow>
   every_undo (pre @ f # post) w = (False, pre' @ f' # post, w2)"
  by (induction pre arbitrary: w pre') (auto split: prod.splits bool.splits)

subsection \<open>The cursor stays within the history\<close>

lemma cursor_ok_discardRedo: "cursor_ok s \<Longrightarrow> cursor_ok (discardRedo s)"
  by (auto simp: cursor_ok_def discardRedo_def splice_from_def Let_def)

lemma cursor_ok_execute: "cursor_ok s \<Longrightarrow> cursor_ok (execute s c)"
  unfolding cursor_ok_def execute_def discardRedo_def Let_def notifyHistoryChange_def
  by (auto simp: splice_from_def Let_def split: option.splits prod.splits bool.splits)

lemma cursor_ok_undo: "cursor_ok s \<Longrightarrow> cursor_ok (snd (undo s))"
  unfolding cursor_ok_def undo_def canUndo_def notifyHistoryChange_def
  by (auto split: option.splits prod.splits bool.splits)

lemma cursor_ok_redo: "cursor_ok s \<Longrightarrow> cursor_ok (snd (redo s))"
  unfolding cursor_ok_def redo_def canRedo_def notifyHistoryChange_def
  by (auto split: option.splits prod.splits bool.splits)

lemma cursor_ok_endBatch: "cursor_ok s \<Longrightarrow> cursor_ok (snd (endBatch s b now))"
  using cursor_ok_execute[of s] cursor_ok_discardRedo[of s]
  by (auto simp: endBatch_def Let_def cursor_ok_def split: option.splits combiner.splits)

lemma shift_loop_returns:
  "0 \<le> n \<Longrightarrow> shift_loop s n =
     Some (s\<lparr>history := drop (length (history s) - nat n) (history s),
             currentIndex := currentIndex s - int (length (history s) - nat n)\<rparr>)"
proof (induction "length (history s)" arbitrary: s)
  case 0
  then show ?case by (subst shift_loop.simps) simp
next
  case (Suc k)
  show ?case
  proof (cases "int (length (history s)) > n")
    case True
    let ?s' = "s\<lparr>history := tl (history s), currentIndex := currentIndex s - 1\<rparr>"
    have k: "k = length (history ?s')" using Suc.hyps(2) by simp
    have "shift_loop s n = shift_loop ?s' n"
      by (subst shift_loop.simps) (use True in simp)
    also have "\<dots> = Some (?s'\<lparr>history := drop (length (history ?s') - nat n) (history ?s'),
             currentIndex := currentIndex ?s' - int (length (history ?s') - nat n)\<rparr>)"
      by (rule Suc.hyps(1)[OF k Suc.prems])
    also have "\<dots> = Some (s\<lparr>history := drop (length (history s) - nat n) (history s),
             currentIndex := currentIndex s - int (length (history s) - nat n)\<rparr>)"
      using True Suc.hyps(2) Suc.prems
      by (cases "history s") (auto simp: drop_Suc Suc_diff_le nat_le_iff)
    finally show ?thesis .
  next
    case False
    then show ?thesis by (subst shift_loop.simps) simp
  qed
qed

lemma shift_loop_diverges: "n < 0 \<Longrightarrow> shift_loop s n = None"
proof (rule ccontr)
  assume n: "n < 0" and "shift_loop s n \<noteq> None"
  then obtain y where y: "shift_loop s n = Some y" by blast
  have "\<not> n < 0"
    by (rule shift_loop.raw_induct [where P = "\<lambda>s n y. \<not> n < 0", OF _ y])
       (auto split: if_splits)
  with n show False by simp
qed

lemma cursor_ok_setMaxHistorySize:
  assumes "cursor_ok s" "setMaxHistorySize s n = Some s'"
    "int (length (history s)) - n \<le> currentIndex s + 1"
  shows "cursor_ok s'"
proof -
  have n: "0 \<le> n"
    using assms(2) shift_loop_diverges[of n "s\<lparr>maxHistorySize := n\<rparr>"]
    by (cases "n < 0") (auto simp: setMaxHistorySize_def)
  from assms(2) shift_loop_returns[OF n, of "s\<lparr>maxHistorySize := n\<rparr>"]
  have "s' = s\<lparr>maxHistorySize := n,
               history := drop (length (history s) - nat n) (history s),
               currentIndex := currentIndex s - int (length (history s) - nat n)\<rparr>"
    by (simp add: setMaxHistorySize_def)
  with assms(1,3) n show ?thesis by (auto simp: cursor_ok_def)
qed

lemma reachable_cursor_ok: "reachable s0 s \<Longrightarrow> cursor_ok s0 \<Longrightarrow> cursor_ok s"
proof (induction rule: reachable.induct)
  case r_new
  then show ?case by simp
next
  case (r_execute s c)
  then show ?case by (simp add: cursor_ok_execute)
next
  case (r_undo s)
  then show ?case by (simp add: cursor_ok_undo)
next
  case (r_redo s)
  then show ?case by (simp add: cursor_ok_redo)
next
  case (r_startBatch s batchId type now)
  then show ?case by (simp add: cursor_ok_def startBatch_def)
next
  case (r_addToBatch s batchId c)
  then show ?case by (simp add: cursor_ok_def addToBatch_def split: option.splits)
next
  case (r_endBatch s batchId now)
  then show ?case by (simp add: cursor_ok_endBatch)
next
  case (r_clearHistory s)
  then show ?case by (simp add: cursor_ok_def clearHistory_def notifyHistoryChange_def)
next
  case (r_setMaxHistorySize s n s')
  then show ?case using cursor_ok_setMaxHistorySize by blast
qed

lemma undone_reachable: "reachable manager0 undone"
  unfolding undone_def by (intro reachable.intros)

text \<open>
  Without the restriction on \<^verbatim>\<open>setMaxHistorySize\<close> the cursor can fall below \<open>-1\<close>: the
  loop decrements it once for every entry it drops, also for entries that were already
  undone.
\<close>

lemma setMaxHistorySize_cursor_below_floor:
  "map_option currentIndex
     (setMaxHistorySize (snd (undo (execute (s\<lparr>history := [], currentIndex := - 1, maxHistorySize := 100\<rparr>)
        (Command t st (\<lambda>w. (True, w)) (\<lambda>w. (True, w)) None)))) 0) = Some (- 2)"
  apply (simp add: setMaxHistorySize_def)
  apply (subst shift_loop_returns, simp)+
  apply (simp add: run_defs)
  done

subsection \<open>Appending to the history and fusing into its last entry\<close>

text \<open>
  A command that is not combined with the entry before it and whose \<^verbatim>\<open>execute\<close> closure
  returns true becomes the current and last entry, provided the history may hold an entry
  at all.
\<close>

lemma discardRedo_history:
  "cursor_ok s \<Longrightarrow> discardRedo s = s\<lparr>history := take (nat (currentIndex s + 1)) (history s)\<rparr>"
  by (auto simp: cursor_ok_def discardRedo_def splice_from_def Let_def min_def)

lemma nth_opt_take_cursor:
  "nth_opt (take (nat (i + 1)) xs) i = nth_opt xs i"
proof (cases "0 \<le> i")
  case True
  then have "nat i < nat (i + 1)" by simp
  then show ?thesis using True by (auto simp: nth_opt_def)
next
  case False
  then show ?thesis by (simp add: nth_opt_def)
qed

lemma execute_appends:
  assumes ok: "cursor_ok s" and cap: "1 \<le> maxHistorySize s"
    and fresh: "try_combine (nth_opt (history s) (currentIndex s)) c = None"
    and run: "cmd_execute c (world s) = (True, w)"
  shows "nth_opt (history (execute s c)) (currentIndex (execute s c)) = Some c
     \<and> currentIndex (execute s c) = int (length (history (execute s c))) - 1
     \<and> world (execute s c) = w
     \<and> commandFactories (execute s c) = commandFactories s"
proof -
  let ?h = "take (nat (currentIndex s + 1)) (history s)"
  have d: "discardRedo s = s\<lparr>history := ?h\<rparr>" using ok by (rule discardRedo_history)
  have len: "int (length ?h) = currentIndex s + 1"
    using ok by (auto simp: cursor_ok_def)
  show ?thesis
  proof (cases "int (length (?h @ [c])) > maxHistorySize s")
    case True
    then have e: "execute s c = notifyHistoryChange
        (s\<lparr>world := w, history := tl (?h @ [c]), currentIndex := currentIndex s\<rparr>)"
      using fresh run by (simp add: execute_def d nth_opt_take_cursor Let_def)
    have ne: "?h \<noteq> []" using True cap len by auto
    then have tl: "tl (?h @ [c]) = tl ?h @ [c]" by simp
    have l2: "int (length (tl ?h)) = currentIndex s" using len ne by (cases ?h) auto
    then have l3: "nat (currentIndex s) = length (tl ?h)" by simp
    have hist: "history (execute s c) = tl ?h @ [c]" "currentIndex (execute s c) = currentIndex s"
      "world (execute s c) = w" "commandFactories (execute s c) = commandFactories s"
      by (simp_all add: e tl notifyHistoryChange_def)
    have "(tl ?h @ [c]) ! nat (currentIndex s) = c"
      unfolding l3 by (rule nth_append_length)
    moreover have "0 \<le> currentIndex s" "currentIndex s < int (length (tl ?h @ [c]))"
      using l2 by simp_all
    ultimately have "nth_opt (tl ?h @ [c]) (currentIndex s) = Some c"
      by (simp only: nth_opt_def simp_thms if_True)
    moreover have "currentIndex s = int (length (tl ?h @ [c])) - 1"
      using l2 by simp
    ultimately show ?thesis
      by (simp only: hist simp_thms)
  next
    case False
    then have e: "execute s c = notifyHistoryChange
        (s\<lparr>world := w, history := ?h @ [c], currentIndex := currentIndex s + 1\<rparr>)"
      using fresh run by (simp add: execute_def d nth_opt_take_cursor Let_def)
    have ci: "0 \<le> currentIndex s + 1" using ok by (simp add: cursor_ok_def)
    then have l3: "nat (currentIndex s + 1) = length ?h" using len by simp
    have hist: "history (execute s c) = ?h @ [c]" "currentIndex (execute s c) = currentIndex s + 1"
      "world (execute s c) = w" "commandFactories (execute s c) = commandFactories s"
      by (simp_all add: e notifyHistoryChange_def)
    have "(?h @ [c]) ! nat (currentIndex s + 1) = (?h @ [c]) ! length ?h"
      by (rule arg_cong [where f = "\<lambda>n. (?h @ [c]) ! n", OF l3])
    then have "(?h @ [c]) ! nat (currentIndex s + 1) = c"
      by (simp only: nth_append_length)
    moreover have "currentIndex s + 1 < int (length (?h @ [c]))"
      using len by simp
    ultimately have "nth_opt (?h @ [c]) (currentIndex s + 1) = Some c"
      using ci by (simp only: nth_opt_def simp_thms if_True)
    moreover have "currentIndex s + 1 = int (length (?h @ [c])) - 1"
      using len by simp
    ultimately show ?thesis
      by (simp only: hist simp_thms)
  qed
qed

text \<open>
  A text edit of the same element, stamped less than 1000 ms after the state of the
  current and last entry, is fused into that entry: only the entry's \<^verbatim>\<open>state\<close> is
  replaced, its closures keep the state they captured.
\<close>

lemma textEdit_fuses_into_current:
  assumes cur: "nth_opt (history s) (currentIndex s) =
            Some (Command ''textEdit'' st1 (textEdit_execute p1) (textEdit_undo p1)
                    (Some textEdit_combine))"
    and last: "currentIndex s = int (length (history s)) - 1"
    and fac: "commandFactories s ''textEdit'' = Some textEdit_factory"
    and c2: "createCommand s ''textEdit'' p2 t2 = Inr c2"
    and el: "element (payload st1) = element p2" "element p1 = element p2"
    and near: "t2 - timestamp st1 < 1000"
  shows "length (history (execute s c2)) = length (history s)
     \<and> currentIndex (execute s c2) = currentIndex s
     \<and> events (execute s c2) = events s
     \<and> textContent (world (execute s c2)) (element p2) = newText p2
     \<and> fst (undo (execute s c2)) = Inr True
     \<and> textContent (world (snd (undo (execute s c2)))) (element p2) = oldText p1"
proof -
  let ?st2 = "\<lparr>payload = p2, timestamp = t2\<rparr>"
  let ?prev = "Command ''textEdit'' (?st2\<lparr>payload := p2\<lparr>oldText := oldText (payload st1)\<rparr>\<rparr>)
                 (textEdit_execute p1) (textEdit_undo p1) (Some textEdit_combine)"
  have c2': "c2 = Command ''textEdit'' ?st2 (textEdit_execute p2) (textEdit_undo p2)
                    (Some textEdit_combine)"
    using c2 fac by (simp add: createCommand_def textEdit_factory_def)
  have rng: "0 \<le> currentIndex s" "currentIndex s < int (length (history s))"
    using cur by (auto simp: nth_opt_def split: if_splits)
  have comb: "textEdit_combine st1 ?st2
                = Some (?st2\<lparr>payload := p2\<lparr>oldText := oldText (payload st1)\<rparr>\<rparr>)"
    using el near by (simp add: textEdit_combine_def)
  have ex: "execute s c2 =
      s\<lparr>history := (history s)[nat (currentIndex s) := ?prev],
        world := snd (textEdit_execute p2 (world s))\<rparr>"
    using cur last comb by (simp add: execute_def discardRedo_def c2')
  have nth: "nth_opt (history (execute s c2)) (currentIndex (execute s c2)) = Some ?prev"
    using rng by (simp add: ex nth_opt_def)
  have un: "undo (execute s c2) =
      (Inr True, notifyHistoryChange
         ((execute s c2)\<lparr>history := (history (execute s c2))[nat (currentIndex s) := ?prev],
            world := snd (textEdit_undo p1 (world (execute s c2))),
            currentIndex := currentIndex s - 1\<rparr>))"
    using rng nth by (simp add: undo_def canUndo_def ex textEdit_undo_def)
  show ?thesis
    apply (intro conjI)
    subgoal by (simp add: ex)
    subgoal by (simp add: ex)
    subgoal by (simp add: ex)
    subgoal by (simp add: ex textEdit_execute_def)
    subgoal by (simp add: un)
    subgoal using el by (simp add: un notifyHistoryChange_def textEdit_undo_def)
    done
qed

subsection \<open>The iterations of \<^verbatim>\<open>restoreSnapshot\<close>\<close>

lemma undo_True_index: "undo s = (Inr True, s') \<Longrightarrow> currentIndex s' = currentIndex s - 1"
  by (auto simp: undo_def notifyHistoryChange_def
      split: if_splits option.splits prod.splits bool.splits)

lemma redo_True_index: "redo s = (Inr True, s') \<Longrightarrow> currentIndex s' = currentIndex s + 1"
  by (auto simp: redo_def notifyHistoryChange_def
      split: if_splits option.splits prod.splits bool.splits)

lemma undo_loop_done: "currentIndex s \<le> target \<Longrightarrow> undo_loop s target = Some (Inr (), s)"
  by (subst undo_loop.simps) simp

lemma redo_loop_done: "target \<le> currentIndex s \<Longrightarrow> redo_loop s target = Some (Inr (), s)"
  by (subst redo_loop.simps) simp

lemma undo_loop_returns:
  "undo_calls_succeed n s \<Longrightarrow> currentIndex s = target + int n \<Longrightarrow>
   \<exists>s'. undo_loop s target = Some (Inr (), s') \<and> currentIndex s' = target"
proof (induction n arbitrary: s)
  case 0
  then show ?case by (subst undo_loop.simps) simp
next
  case (Suc n)
  from Suc.prems(1) obtain s1 where u: "undo s = (Inr True, s1)" and r: "undo_calls_succeed n s1"
    by (auto split: prod.splits sum.splits bool.splits)
  have "currentIndex s1 = target + int n"
    using undo_True_index[OF u] Suc.prems(2) by simp
  from Suc.IH[OF r this] obtain s' where
    "undo_loop s1 target = Some (Inr (), s')" "currentIndex s' = target" by blast
  moreover have "undo_loop s target = undo_loop s1 target"
    by (subst undo_loop.simps) (use u Suc.prems(2) in simp)
  ultimately show ?case by simp
qed

lemma redo_loop_returns:
  "redo_calls_succeed n s \<Longrightarrow> target = currentIndex s + int n \<Longrightarrow>
   \<exists>s'. redo_loop s target = Some (Inr (), s') \<and> currentIndex s' = target"
proof (induction n arbitrary: s)
  case 0
  then show ?case by (subst redo_loop.simps) simp
next
  case (Suc n)
  from Suc.prems(1) obtain s1 where u: "redo s = (Inr True, s1)" and r: "redo_calls_succeed n s1"
    by (auto split: prod.splits sum.splits bool.splits)
  have "target = currentIndex s1 + int n"
    using redo_True_index[OF u] Suc.prems(2) by simp
  from Suc.IH[OF r this] obtain s' where
    "redo_loop s1 target = Some (Inr (), s')" "currentIndex s' = target" by blast
  moreover have "redo_loop s target = redo_loop s1 target"
    by (subst redo_loop.simps) (use u Suc.prems(2) in simp)
  ultimately show ?case by simp
qed

text \<open>A call that fails and leaves the state as it was is repeated for ever.\<close>

lemma undo_loop_stuck:
  assumes "undo s = (Inr False, s)" "target < currentIndex s"
  shows "undo_loop s target = None"
proof (rule ccontr)
  assume "undo_loop s target \<noteq> None"
  then obtain y where y: "undo_loop s target = Some y" by blast
  have "\<not> (undo s = (Inr False, s) \<and> target < currentIndex s)"
    by (rule undo_loop.raw_induct
          [where P = "\<lambda>s target y. \<not> (undo s = (Inr False, s) \<and> target < currentIndex s)",
           OF _ y])
       (auto split: if_splits)
  with assms show False by simp
qed

lemma redo_loop_stuck:
  assumes "redo s = (Inr False, s)" "currentIndex s < target"
  shows "redo_loop s target = None"
proof (rule ccontr)
  assume "redo_loop s target \<noteq> None"
  then obtain y where y: "redo_loop s target = Some y" by blast
  have "\<not> (redo s = (Inr False, s) \<and> currentIndex s < target)"
    by (rule redo_loop.raw_induct
          [where P = "\<lambda>s target y. \<not> (redo s = (Inr False, s) \<and> currentIndex s < target)",
           OF _ y])
       (auto split: if_splits)
  with assms show False by simp
qed

lemma restoreSnapshot_returns:
  assumes "snapshots s snapshotId = Some snapshot"
    and "undo_calls_succeed (nat (currentIndex s - historyIndex snapshot)) s"
    and "redo_calls_succeed (nat (historyIndex snapshot - currentIndex s)) s"
  shows "\<exists>s'. restoreSnapshot s snapshotId = Some (Inr True, s')
            \<and> currentIndex s' = historyIndex snapshot"
proof (cases "currentIndex s > historyIndex snapshot")
  case True
  from undo_loop_returns[OF assms(2)] True obtain s1 where
    u: "undo_loop s (historyIndex snapshot) = Some (Inr (), s1)"
    and c: "currentIndex s1 = historyIndex snapshot"
    by auto
  have "redo_loop s1 (historyIndex snapshot) = Some (Inr (), s1)"
    using c by (simp add: redo_loop_done)
  with u c show ?thesis by (simp add: restoreSnapshot_def assms(1))
next
  case False
  then have u: "undo_loop s (historyIndex snapshot) = Some (Inr (), s)"
    by (simp add: undo_loop_done)
  from redo_loop_returns[OF assms(3)] False obtain s2 where
    "redo_loop s (historyIndex snapshot) = Some (Inr (), s2)"
    "currentIndex s2 = historyIndex snapshot"
    by auto
  with u show ?thesis by (simp add: restoreSnapshot_def assms(1))
qed

subsection \<open>The pending set is never written\<close>

lemma pendingChanges_handleRemoteChange:
  "pendingChanges (handleRemoteChange ap s message) = pendingChanges s"
  by (simp add: handleRemoteChange_def requestResync_def transform_def Let_def
      split: prod.splits option.splits)

lemma pendingChanges_queueChanges: "pendingChanges (snd (queueChanges s changes)) = pendingChanges s"
  by (simp add: queueChanges_def scheduleSyncChanges_def)

lemma pendingChanges_syncChanges:
  "pendingChanges (snd (syncChanges s meanwhile)) = pendingChanges s"
  by (simp add: syncChanges_def sendChanges_def sendMessage_def queueChanges_def
      scheduleSyncChanges_def requestResync_def Let_def split: sum.splits option.splits)

lemma reachable_collab_pending: "reachable_collab ap s \<Longrightarrow> pendingChanges s = []"
proof (induction rule: reachable_collab.induct)
  case (rc_setup s)
  then show ?case by (simp add: setupChangeTracking_def)
next
  case (rc_document s version)
  then show ?case by (simp add: initializeDocument_def)
next
  case (rc_socket s r)
  then show ?case by simp
next
  case (rc_queue s changes)
  then show ?case by (simp add: pendingChanges_queueChanges)
next
  case (rc_sync s meanwhile)
  then show ?case by (simp add: pendingChanges_syncChanges)
next
  case (rc_remote s message)
  then show ?case by (simp add: pendingChanges_handleRemoteChange)
qed

lemma flushed_reachable: "reachable_collab sibling_appliers flushed"
  unfolding flushed_def queued_def by (intro reachable_collab.intros)

subsection \<open>What makes a send fail\<close>

text \<open>
  The send of a batch fails exactly when there is no current user, the socket is not
  open, or serializing or sending the message raises. What the server makes of a batch
  that was sent is no part of this: it reaches the client as a message of its own.
\<close>

lemma sendChanges_fails_iff:
  "fst (sendChanges s changes) \<noteq> Inr () \<longleftrightarrow>
     (case currentUser s of
        None \<Rightarrow> True
      | Some user \<Rightarrow>
          readyState s \<noteq> OPEN
          \<or> sendRaises s \<lparr>cs_documentId = documentId s, cs_changes = changes,
                            cs_version = lastSyncedVersion s, cs_author = user\<rparr> \<noteq> None)"
  by (auto simp: sendChanges_def sendMessage_def split: option.splits)

section \<open>Claims about the transform and the synchronisation\<close>

text \<open>
  C1 (as stated, refuted). The claim wants the remote insert of Y by B, transformed on
  client A against A's pending insert of X at the same path (A has the lower tie-break
  key), to move from index 0 to index 1, so that both clients end with \<open>[X, Y]\<close>. The
  transform returns the remote operation as it came: the index stays 0, client A ends
  with \<open>[Y, X]\<close> and client B with \<open>[X, Y]\<close>.
\<close>

theorem C1_insert_tiebreak_counterexample:
  "ctype opY = ''insert'' \<and> ctype opX = ''insert'' \<and> path opY = path opX
   \<and> tiebreak opX < tiebreak opY
   \<and> path (transform opY [opX]) = [Idx 0]
   \<and> path (transform opY [opX]) \<noteq> [Idx 1]
   \<and> document (handleRemoteChange sibling_appliers clientA
        \<lparr>m_change = opY, m_author = ''B'', m_version = 2\<rparr>) = [''Y'', ''X'']
   \<and> document (handleRemoteChange sibling_appliers clientB
        \<lparr>m_change = opX, m_author = ''A'', m_version = 1\<rparr>) = [''X'', ''Y'']"
  by (simp add: opX_def opY_def tiebreak_def clientA_def clientB_def example_collab_def
      sibling_appliers_def sync_defs)

text \<open>
  C1 (amended). For every remote operation and every list of pending local operations the
  transform keeps the remote operation, and with it its target index, whatever the
  tie-break keys are; a remote insert whose application succeeds is applied by
  \<^verbatim>\<open>handleRemoteChange\<close> at its own path.
\<close>

theorem C1_transform_keeps_remote_index:
  "transform R pending = R \<and>
   (ctype R = ''insert'' \<longrightarrow> fst (applyInsert ap (path R) (cvalue R) (document s)) = None \<longrightarrow>
      document (handleRemoteChange ap s \<lparr>m_change = R, m_author = a, m_version = v\<rparr>)
        = snd (applyInsert ap (path R) (cvalue R) (document s)))"
  by (auto simp: transform_def handleRemoteChange_def applyChange_def
      split: prod.splits option.splits)

text \<open>
  C1 (witness). The amended statement at the scenario: B's insert, transformed against A's
  pending insert, is B's insert, and client A applies it at index 0.
\<close>

theorem C1_transform_keeps_remote_index_witness:
  "transform opY [opX] = opY \<and>
   document (handleRemoteChange sibling_appliers clientA
      \<lparr>m_change = opY, m_author = ''B'', m_version = 2\<rparr>) = [''Y'', ''X'']"
  using C1_transform_keeps_remote_index [of opY "[opX]" sibling_appliers clientA "''B''" 2]
  by (simp add: opX_def opY_def sibling_appliers_def clientA_def example_collab_def)

text \<open>
  C2 (as stated, refuted). The claim wants an operation that is transformed against a
  pending delete of an ancestor-or-equal path to become a no-op that is reported as
  dropped. Client A holds a pending delete of \<open>[2]\<close>; B's update of
  \<open>[2].attributes.color\<close> comes back from the transform as the same update, is handed to
  the applier with its stale path, overwrites the node that now sits at index 2, and is
  notified as applied; no resynchronisation is requested and nothing records a drop.
\<close>

theorem C2_update_under_deleted_path_counterexample:
  "ctype opDel = ''delete'' \<and> ancestor_or_equal (path opDel) (path opUpd)
   \<and> map snd (pendingChanges deleterA) = [opDel]
   \<and> transform opUpd (map snd (pendingChanges deleterA)) = opUpd
   \<and> ctype (transform opUpd (map snd (pendingChanges deleterA))) = ''update''
   \<and> document (handleRemoteChange sibling_appliers deleterA
        \<lparr>m_change = opUpd, m_author = ''B'', m_version = 2\<rparr>) = [''n0'', ''n1'', ''red'']
   \<and> applied (handleRemoteChange sibling_appliers deleterA
        \<lparr>m_change = opUpd, m_author = ''B'', m_version = 2\<rparr>) = [opUpd]
   \<and> resyncRequests (handleRemoteChange sibling_appliers deleterA
        \<lparr>m_change = opUpd, m_author = ''B'', m_version = 2\<rparr>) = 0"
  by (simp add: opDel_def opUpd_def deleterA_def example_collab_def sibling_appliers_def
      sync_defs)

text \<open>
  C2 (amended). A pending delete whose path is an ancestor of or equal to the path of a
  remote operation R changes nothing: the transform returns R itself, and
  \<^verbatim>\<open>handleRemoteChange\<close> does exactly what it does when nothing is pending, that is, it
  applies R at R's own path. No outcome other than the operation is reported.
\<close>

theorem C2_pending_delete_is_ignored:
  "ctype L = ''delete'' \<and> ancestor_or_equal (path L) (path R) \<and> L \<in> snd ` set (pendingChanges s)
   \<longrightarrow> transform R (map snd (pendingChanges s)) = R
     \<and> handleRemoteChange ap s \<lparr>m_change = R, m_author = a, m_version = v\<rparr>
       = (handleRemoteChange ap (s\<lparr>pendingChanges := []\<rparr>) \<lparr>m_change = R, m_author = a, m_version = v\<rparr>)
           \<lparr>pendingChanges := pendingChanges s\<rparr>"
  by (simp add: transform_def handleRemoteChange_def requestResync_def Let_def
      split: prod.splits option.splits)

text \<open>
  C2 (witness). The amended statement at the scenario: with the delete of \<open>[2]\<close> pending,
  the update of \<open>[2].attributes.color\<close> is handled as if nothing were pending.
\<close>

theorem C2_pending_delete_is_ignored_witness:
  "ctype opDel = ''delete'' \<and> ancestor_or_equal (path opDel) (path opUpd)
   \<and> opDel \<in> snd ` set (pendingChanges deleterA)
   \<and> transform opUpd (map snd (pendingChanges deleterA)) = opUpd
   \<and> handleRemoteChange sibling_appliers deleterA \<lparr>m_change = opUpd, m_author = ''B'', m_version = 2\<rparr>
     = (handleRemoteChange sibling_appliers (deleterA\<lparr>pendingChanges := []\<rparr>)
          \<lparr>m_change = opUpd, m_author = ''B'', m_version = 2\<rparr>)
         \<lparr>pendingChanges := pendingChanges deleterA\<rparr>"
proof -
  have h: "ctype opDel = ''delete'' \<and> ancestor_or_equal (path opDel) (path opUpd)
           \<and> opDel \<in> snd ` set (pendingChanges deleterA)"
    by (simp add: opDel_def opUpd_def deleterA_def example_collab_def)
  from h C2_pending_delete_is_ignored [of opDel opUpd deleterA sibling_appliers "''B''" 2]
  show ?thesis by blast
qed

text \<open>
  C3 (as stated, refuted). The claim wants the pending set to hold the unacknowledged
  local operations, to be emptied in \<open>localSeq\<close> order, and an acknowledgement for
  \<open>localSeq = 5\<close> that arrives while \<open>localSeq = 4\<close> is unacknowledged neither to be
  applied nor to advance \<open>lastSyncedVersion\<close>. A client queues operations 4 and 5 and
  flushes them: both are sent, neither is in the pending set. The change message for
  operation 5 then arrives with version 12: it is applied at once and
  \<open>lastSyncedVersion\<close> becomes 12, while operation 4 has not come back.
\<close>

theorem C3_pending_set_counterexample:
  "localSeq op4 = 4 \<and> localSeq op5 = 5
   \<and> reachable_collab sibling_appliers flushed
   \<and> concat (map cs_changes (sent flushed)) = [op4, op5] \<and> length (sent flushed) = 1
   \<and> pendingChanges flushed = []
   \<and> lastSyncedVersion flushed = 0
   \<and> applied flushed = []
   \<and> applied acked5 = [op5]
   \<and> lastSyncedVersion acked5 = 12"
proof -
  have "localSeq op4 = 4 \<and> localSeq op5 = 5
     \<and> concat (map cs_changes (sent flushed)) = [op4, op5] \<and> length (sent flushed) = 1
     \<and> pendingChanges flushed = []
     \<and> lastSyncedVersion flushed = 0
     \<and> applied flushed = []
     \<and> applied acked5 = [op5]
     \<and> lastSyncedVersion acked5 = 12"
    by (simp add: acked5_def flushed_def queued_def op4_def op5_def example_collab_def
        sibling_appliers_def sync_defs)
  with flushed_reachable show ?thesis by blast
qed

text \<open>
  C3 (amended). The pending set is created empty by \<^verbatim>\<open>setupChangeTracking\<close> and no
  handler adds to it or removes from it, so it is empty in every reachable state, before
  and after every remote change. \<^verbatim>\<open>handleRemoteChange\<close> knows no acknowledgements: every
  change message whose application succeeds is applied on arrival and sets
  \<open>lastSyncedVersion\<close> to the version of the message.
\<close>

theorem C3_pending_set_stays_empty:
  "reachable_collab ap s \<Longrightarrow>
   pendingChanges s = []
   \<and> pendingChanges (handleRemoteChange ap s message) = []
   \<and> (fst (applyChange ap (m_change message) (document s)) = None \<longrightarrow>
        lastSyncedVersion (handleRemoteChange ap s message) = m_version message
        \<and> applied (handleRemoteChange ap s message) = applied s @ [m_change message])"
proof -
  assume r: "reachable_collab ap s"
  then have "pendingChanges s = []" by (rule reachable_collab_pending)
  moreover from r have "reachable_collab ap (handleRemoteChange ap s message)"
    by (rule rc_remote)
  then have "pendingChanges (handleRemoteChange ap s message) = []"
    by (rule reachable_collab_pending)
  moreover have "fst (applyChange ap (m_change message) (document s)) = None \<longrightarrow>
        lastSyncedVersion (handleRemoteChange ap s message) = m_version message
        \<and> applied (handleRemoteChange ap s message) = applied s @ [m_change message]"
    by (auto simp: handleRemoteChange_def transform_def Let_def split: prod.splits option.splits)
  ultimately show ?thesis by simp
qed

text \<open>
  C3 (witness). The amended statement at the flushed client and the change message for
  operation 5.
\<close>

theorem C3_pending_set_stays_empty_witness:
  "reachable_collab sibling_appliers flushed
   \<and> fst (applyChange sibling_appliers op5 (document flushed)) = None
   \<and> pendingChanges flushed = []
   \<and> pendingChanges acked5 = []
   \<and> lastSyncedVersion acked5 = 12
   \<and> applied acked5 = [op5]"
proof -
  have a: "fst (applyChange sibling_appliers op5 (document flushed)) = None"
    and b: "applied flushed = []"
    by (simp_all add: flushed_def queued_def op4_def op5_def example_collab_def
        sibling_appliers_def sync_defs)
  from C3_pending_set_stays_empty [OF flushed_reachable,
      of "\<lparr>m_change = op5, m_author = ''A'', m_version = 12\<rparr>"] a b flushed_reachable
  show ?thesis by (simp add: acked5_def)
qed

text \<open>
  C4 (as stated, refuted). The claim counts a rejection by the server among the failures
  after which \<^verbatim>\<open>syncChanges\<close> requeues the batch and asks for a resynchronisation. A
  client with an open socket flushes operations 4 and 5 while one more operation is
  queued. \<^verbatim>\<open>sendMessage\<close> resolves as soon as the batch is handed to the socket: the
  batch has left the buffer, only the operation queued in the meantime is in it, and no
  resynchronisation is requested. A server that rejects the batch changes none of this:
  its answer is no input of \<^verbatim>\<open>syncChanges\<close>.
\<close>

theorem C4_server_rejection_counterexample:
  "readyState queued = OPEN \<and> changeBuffer queued = [op4, op5]
   \<and> fst (syncChanges queued [opX]) = None
   \<and> changeBuffer (snd (syncChanges queued [opX])) = [opX]
   \<and> concat (map cs_changes (sent (snd (syncChanges queued [opX])))) = [op4, op5]
   \<and> length (sent (snd (syncChanges queued [opX]))) = 1
   \<and> resyncRequests (snd (syncChanges queued [opX])) = 0"
  by (simp add: queued_def op4_def op5_def opX_def example_collab_def sync_defs)

text \<open>
  C4 (amended). The send of a buffered batch fails exactly when no current user is set,
  the WebSocket is not open, or serializing or sending the message raises. Whenever it
  fails, \<^verbatim>\<open>syncChanges\<close> puts the batch back at the front of the buffer, in its original
  order and ahead of everything queued in the meantime, sends nothing, and then calls
  \<^verbatim>\<open>requestResync\<close> (for a batch and for queued changes that fit into one call of
  \<^verbatim>\<open>unshift\<close> and \<^verbatim>\<open>push\<close>). Whenever the send succeeds, the batch is handed to the
  socket and leaves the buffer, and no resynchronisation is requested; a rejection by
  the server is not a failure of the send.
\<close>

theorem C4_failed_send_requeues_at_front:
  "changeBuffer s \<noteq> [] \<Longrightarrow> length (changeBuffer s) \<le> argumentLimit s \<Longrightarrow>
   length meanwhile \<le> argumentLimit s \<Longrightarrow>
   (fst (sendChanges (s\<lparr>changeBuffer := []\<rparr>) (changeBuffer s)) \<noteq> Inr () \<longrightarrow>
      fst (syncChanges s meanwhile) = None
      \<and> changeBuffer (snd (syncChanges s meanwhile)) = changeBuffer s @ meanwhile
      \<and> resyncRequests (snd (syncChanges s meanwhile)) = Suc (resyncRequests s)
      \<and> sent (snd (syncChanges s meanwhile)) = sent s
      \<and> (\<exists>s'. snd (syncChanges s meanwhile) = requestResync s'
                \<and> changeBuffer s' = changeBuffer s @ meanwhile))
   \<and> (fst (sendChanges (s\<lparr>changeBuffer := []\<rparr>) (changeBuffer s)) = Inr () \<longrightarrow>
      fst (syncChanges s meanwhile) = None
      \<and> changeBuffer (snd (syncChanges s meanwhile)) = meanwhile
      \<and> resyncRequests (snd (syncChanges s meanwhile)) = resyncRequests s
      \<and> length (sent (snd (syncChanges s meanwhile))) = Suc (length (sent s))
      \<and> cs_changes (last (sent (snd (syncChanges s meanwhile)))) = changeBuffer s)
   \<and> (fst (sendChanges (s\<lparr>changeBuffer := []\<rparr>) (changeBuffer s)) \<noteq> Inr () \<longleftrightarrow>
        currentUser s = None \<or> readyState s \<noteq> OPEN
        \<or> (\<exists>user. currentUser s = Some user
              \<and> sendRaises s \<lparr>cs_documentId = documentId s, cs_changes = changeBuffer s,
                                cs_version = lastSyncedVersion s, cs_author = user\<rparr> \<noteq> None))"
proof (intro conjI impI)
  assume b: "changeBuffer s \<noteq> []" and l: "length (changeBuffer s) \<le> argumentLimit s"
    and m: "length meanwhile \<le> argumentLimit s"
  show "fst (sendChanges (s\<lparr>changeBuffer := []\<rparr>) (changeBuffer s)) \<noteq> Inr () \<longleftrightarrow>
        currentUser s = None \<or> readyState s \<noteq> OPEN
        \<or> (\<exists>user. currentUser s = Some user
              \<and> sendRaises s \<lparr>cs_documentId = documentId s, cs_changes = changeBuffer s,
                                cs_version = lastSyncedVersion s, cs_author = user\<rparr> \<noteq> None)"
    by (auto simp: sendChanges_def sendMessage_def split: option.splits)
  {
    assume f: "fst (sendChanges (s\<lparr>changeBuffer := []\<rparr>) (changeBuffer s)) \<noteq> Inr ()"
    then obtain e where e: "sendChanges (s\<lparr>changeBuffer := []\<rparr>) (changeBuffer s)
                              = (Inl e, s\<lparr>changeBuffer := []\<rparr>)"
      by (auto simp: sendChanges_def sendMessage_def split: option.splits if_splits)
    let ?s2 = "if meanwhile = [] then s\<lparr>changeBuffer := []\<rparr>
               else snd (queueChanges (s\<lparr>changeBuffer := []\<rparr>) meanwhile)"
    let ?s' = "?s2\<lparr>changeBuffer := changeBuffer s @ changeBuffer ?s2\<rparr>"
    have r: "syncChanges s meanwhile = (None, requestResync ?s')"
      using b l m e by (simp add: syncChanges_def queueChanges_def scheduleSyncChanges_def Let_def)
    have c: "changeBuffer ?s' = changeBuffer s @ meanwhile"
      using m by (simp add: queueChanges_def scheduleSyncChanges_def)
    show "fst (syncChanges s meanwhile) = None" by (simp add: r)
    show "changeBuffer (snd (syncChanges s meanwhile)) = changeBuffer s @ meanwhile"
      using c by (simp add: r requestResync_def)
    show "resyncRequests (snd (syncChanges s meanwhile)) = Suc (resyncRequests s)"
      using m by (simp add: r requestResync_def queueChanges_def scheduleSyncChanges_def)
    show "sent (snd (syncChanges s meanwhile)) = sent s"
      using m by (simp add: r requestResync_def queueChanges_def scheduleSyncChanges_def)
    show "\<exists>s'. snd (syncChanges s meanwhile) = requestResync s'
                \<and> changeBuffer s' = changeBuffer s @ meanwhile"
      using c r by (intro exI[of _ ?s']) simp
  }
  {
    assume f: "fst (sendChanges (s\<lparr>changeBuffer := []\<rparr>) (changeBuffer s)) = Inr ()"
    then obtain user where u: "currentUser s = Some user" "readyState s = OPEN"
      "sendRaises s \<lparr>cs_documentId = documentId s, cs_changes = changeBuffer s,
                     cs_version = lastSyncedVersion s, cs_author = user\<rparr> = None"
      by (auto simp: sendChanges_def sendMessage_def split: option.splits if_splits)
    show "fst (syncChanges s meanwhile) = None"
      using b u by (simp add: syncChanges_def sendChanges_def sendMessage_def Let_def)
    show "changeBuffer (snd (syncChanges s meanwhile)) = meanwhile"
      using b m u by (simp add: syncChanges_def sendChanges_def sendMessage_def queueChanges_def
          scheduleSyncChanges_def Let_def)
    show "resyncRequests (snd (syncChanges s meanwhile)) = resyncRequests s"
      using b m u by (simp add: syncChanges_def sendChanges_def sendMessage_def queueChanges_def
          scheduleSyncChanges_def Let_def)
    show "length (sent (snd (syncChanges s meanwhile))) = Suc (length (sent s))"
      using b m u by (simp add: syncChanges_def sendChanges_def sendMessage_def queueChanges_def
          scheduleSyncChanges_def Let_def)
    show "cs_changes (last (sent (snd (syncChanges s meanwhile)))) = changeBuffer s"
      using b m u by (simp add: syncChanges_def sendChanges_def sendMessage_def queueChanges_def
          scheduleSyncChanges_def Let_def)
  }
qed

text \<open>
  C4 (witness). A client whose socket is closed: the send fails, the batch of operations
  4 and 5 is back at the front, ahead of the operation queued in the meantime, and one
  resynchronisation is requested. The same client with the socket open: the batch is
  sent and leaves the buffer.
\<close>

theorem C4_failed_send_requeues_at_front_witness:
  "changeBuffer offline \<noteq> [] \<and> length (changeBuffer offline) \<le> argumentLimit offline
   \<and> length [opX] \<le> argumentLimit offline \<and> readyState offline \<noteq> OPEN
   \<and> fst (sendChanges (offline\<lparr>changeBuffer := []\<rparr>) (changeBuffer offline)) \<noteq> Inr ()
   \<and> changeBuffer (snd (syncChanges offline [opX])) = [op4, op5, opX]
   \<and> resyncRequests (snd (syncChanges offline [opX])) = 1
   \<and> sent (snd (syncChanges offline [opX])) = []
   \<and> fst (sendChanges (queued\<lparr>changeBuffer := []\<rparr>) (changeBuffer queued)) = Inr ()
   \<and> changeBuffer (snd (syncChanges queued [opX])) = [opX]
   \<and> resyncRequests (snd (syncChanges queued [opX])) = 0"
proof -
  have h: "changeBuffer offline = [op4, op5]" "readyState offline = CLOSED"
    "resyncRequests offline = 0" "sent offline = []" "argumentLimit offline = 65535"
    by (simp_all add: offline_def queued_def example_collab_def sync_defs)
  have q: "changeBuffer queued = [op4, op5]" "readyState queued = OPEN"
    "resyncRequests queued = 0" "argumentLimit queued = 65535"
    "fst (sendChanges (queued\<lparr>changeBuffer := []\<rparr>) (changeBuffer queued)) = Inr ()"
    by (simp_all add: queued_def example_collab_def sync_defs)
  have a: "changeBuffer offline \<noteq> []" "length (changeBuffer offline) \<le> argumentLimit offline"
    "length [opX] \<le> argumentLimit offline"
    by (simp_all add: h)
  have b: "changeBuffer queued \<noteq> []" "length (changeBuffer queued) \<le> argumentLimit queued"
    "length [opX] \<le> argumentLimit queued"
    by (simp_all add: q)
  from C4_failed_send_requeues_at_front [OF a] C4_failed_send_requeues_at_front [OF b] h q
  show ?thesis by simp
qed

section \<open>Claims about the command history\<close>

text \<open>
  C5 (the code departs from the claim). A default batch of the two text edits is closed
  with \<^verbatim>\<open>endBatch\<close>: one composite command is pushed and the text is \<open>c\<close>. One
  \<^verbatim>\<open>undo\<close> inverts both edits, in reverse order: the text is \<open>a\<close>. The \<^verbatim>\<open>undo\<close> closure
  has reversed the shared \<^verbatim>\<open>operations\<close> array in place, so the following \<^verbatim>\<open>redo\<close> runs
  the second edit before the first and leaves the text \<open>b\<close>, not \<open>c\<close>.
\<close>

theorem C5_redo_after_undo_runs_batch_backwards:
  "history batched = [BatchCommand [edit_ab, edit_bc] 1] \<and> currentIndex batched = 0
   \<and> textContent (world batched) 0 = ''c''
   \<and> fst (undo batched) = Inr True
   \<and> textContent (world (snd (undo batched))) 0 = ''a''
   \<and> fst (redo (snd (undo batched))) = Inr True
   \<and> history (snd (redo (snd (undo batched)))) = [BatchCommand [edit_bc, edit_ab] 1]
   \<and> textContent (world (snd (redo (snd (undo batched))))) 0 = ''b''
   \<and> textContent (world (snd (redo (snd (undo batched))))) 0 \<noteq> ''c''"
  by (simp add: batched_def manager0_def edit_ab_def edit_bc_def run_defs)

text \<open>
  C6 (as stated, refuted). The claim wants a failed \<^verbatim>\<open>undo\<close> to leave the document as it
  was. A batch of a command whose \<^verbatim>\<open>undo\<close> always fails and of the text edit from \<open>a\<close>
  to \<open>b\<close> is executed: the text is \<open>b\<close>. \<^verbatim>\<open>undo\<close> returns false and leaves the cursor
  where it was, but the edit has been undone on the way: the text is \<open>a\<close>.
\<close>

theorem C6_failed_undo_counterexample:
  "history half_batch = [BatchCommand [stuck, edit_ab] 1] \<and> currentIndex half_batch = 0
   \<and> textContent (world half_batch) 0 = ''b''
   \<and> fst (undo half_batch) = Inr False
   \<and> currentIndex (snd (undo half_batch)) = 0
   \<and> textContent (world (snd (undo half_batch))) 0 = ''a''
   \<and> world (snd (undo half_batch)) \<noteq> world half_batch"
  apply (simp add: half_batch_def manager0_def edit_ab_def stuck_def run_defs)
  apply (auto dest!: fun_cong[where x=0])
  done

text \<open>
  C6 (amended). Nothing is validated before a batch runs. When a constituent of a batch
  returns false, \<^verbatim>\<open>redo\<close> (\<^verbatim>\<open>undo\<close>) returns false and leaves the cursor where it was,
  and the document is left as the constituents before the failing one (in forward order
  for \<^verbatim>\<open>redo\<close>, in reverse order for \<^verbatim>\<open>undo\<close>) and the failing one itself have made
  it; the constituents after it are not run.
\<close>

theorem C6_failed_batch_keeps_partial_effects:
  "(canRedo s
      \<and> nth_opt (history s) (currentIndex s + 1) = Some (BatchCommand (pre @ f # post) ts)
      \<and> every_execute pre (world s) = (True, w1) \<and> cmd_execute f w1 = (False, w2)
    \<longrightarrow> redo s = (Inr False, s\<lparr>world := w2\<rparr>))
   \<and> (canUndo s \<and> nth_opt (history s) (currentIndex s) = Some (BatchCommand ops ts)
      \<and> rev ops = pre @ f # post
      \<and> every_undo pre (world s) = (True, pre', w1) \<and> cmd_undo f w1 = (False, f', w2)
    \<longrightarrow> fst (undo s) = Inr False \<and> world (snd (undo s)) = w2
        \<and> currentIndex (snd (undo s)) = currentIndex s)"
proof (intro conjI impI)
  assume a: "canRedo s
      \<and> nth_opt (history s) (currentIndex s + 1) = Some (BatchCommand (pre @ f # post) ts)
      \<and> every_execute pre (world s) = (True, w1) \<and> cmd_execute f w1 = (False, w2)"
  then have "every_execute (pre @ f # post) (world s) = (False, w2)"
    by (simp add: every_execute_stops)
  with a show "redo s = (Inr False, s\<lparr>world := w2\<rparr>)"
    by (simp add: redo_def)
next
  assume a: "canUndo s \<and> nth_opt (history s) (currentIndex s) = Some (BatchCommand ops ts)
      \<and> rev ops = pre @ f # post
      \<and> every_undo pre (world s) = (True, pre', w1) \<and> cmd_undo f w1 = (False, f', w2)"
  then have "every_undo (rev ops) (world s) = (False, pre' @ f' # post, w2)"
    by (simp add: every_undo_stops)
  with a have u: "undo s =
      (Inr False,
       s\<lparr>history := (history s)[nat (currentIndex s) := BatchCommand (pre' @ f' # post) ts],
         world := w2\<rparr>)"
    by (simp add: undo_def)
  show "fst (undo s) = Inr False" by (simp add: u)
  show "world (snd (undo s)) = w2" by (simp add: u)
  show "currentIndex (snd (undo s)) = currentIndex s" by (simp add: u)
qed

text \<open>
  C6 (witness). The amended statement at the batch of the counterexample: the edit is
  undone first, then the failing command stops the run.
\<close>

theorem C6_failed_batch_keeps_partial_effects_witness:
  "canUndo half_batch
   \<and> nth_opt (history half_batch) (currentIndex half_batch) = Some (BatchCommand [stuck, edit_ab] 1)
   \<and> fst (undo half_batch) = Inr False
   \<and> textContent (world (snd (undo half_batch))) 0 = ''a''
   \<and> currentIndex (snd (undo half_batch)) = currentIndex half_batch"
proof -
  have h: "history half_batch = [BatchCommand [stuck, edit_ab] 1] \<and> currentIndex half_batch = 0
       \<and> world half_batch = \<lparr>textContent = (\<lambda>n. ''a'')(0 := ''b'')\<rparr>"
    by (simp add: half_batch_def manager0_def edit_ab_def stuck_def run_defs)
  have 1: "canUndo half_batch
      \<and> nth_opt (history half_batch) (currentIndex half_batch) = Some (BatchCommand [stuck, edit_ab] 1)
      \<and> rev [stuck, edit_ab] = [edit_ab] @ stuck # []
      \<and> every_undo [edit_ab] (world half_batch)
          = (True, [edit_ab], \<lparr>textContent = (\<lambda>n. ''a'')(0 := ''a'')\<rparr>)
      \<and> cmd_undo stuck \<lparr>textContent = (\<lambda>n. ''a'')(0 := ''a'')\<rparr>
          = (False, stuck, \<lparr>textContent = (\<lambda>n. ''a'')(0 := ''a'')\<rparr>)"
    by (simp add: h canUndo_def nth_opt_def stuck_def edit_ab_def textEdit_undo_def)
  from C6_failed_batch_keeps_partial_effects [THEN conjunct2, rule_format, OF 1] 1
  show ?thesis by simp
qed

text \<open>
  C7 (as stated, refuted). The claim wants any two text edits of one element, executed in
  sequence less than 1000 ms apart, to fuse into one history entry whose \<^verbatim>\<open>undo\<close>
  restores the text from before the first edit. Three runs show otherwise. After
  \<^verbatim>\<open>setMaxHistorySize(0)\<close> the first edit is pushed and dropped at once, so the second
  finds no entry to fuse with, the history stays empty, \<^verbatim>\<open>undo\<close> returns false and the
  text stays \<open>c\<close>. A first edit that was created with the old text \<open>zzz\<close> on a node that
  reads \<open>a\<close> makes \<^verbatim>\<open>undo\<close> write \<open>zzz\<close>. And when the edit to \<open>c\<close> is itself fused
  into the entry of the earlier edit from \<open>a\<close> to \<open>b\<close>, the \<^verbatim>\<open>undo\<close> after the edit to
  \<open>d\<close> restores \<open>a\<close>, not the text \<open>b\<close> from before the edit to \<open>c\<close>.
\<close>

theorem C7_text_edits_counterexample:
  "setMaxHistorySize manager0 0 = Some capped
   \<and> history (execute capped edit_ab) = []
   \<and> history (execute (execute capped edit_ab) edit_bc) = []
   \<and> currentIndex (execute (execute capped edit_ab) edit_bc) = - 1
   \<and> fst (undo (execute (execute capped edit_ab) edit_bc)) = Inr False
   \<and> textContent (world (snd (undo (execute (execute capped edit_ab) edit_bc)))) 0 = ''c''
   \<and> textContent (world manager0) 0 = ''a''
   \<and> fst (undo (execute (execute manager0 edit_zb) edit_bc)) = Inr True
   \<and> textContent (world (snd (undo (execute (execute manager0 edit_zb) edit_bc)))) 0 = ''zzz''
   \<and> textContent (world (execute manager0 edit_ab)) 0 = ''b''
   \<and> length (history (execute (execute (execute manager0 edit_ab) edit_bc) edit_cd)) = 1
   \<and> fst (undo (execute (execute (execute manager0 edit_ab) edit_bc) edit_cd)) = Inr True
   \<and> textContent
        (world (snd (undo (execute (execute (execute manager0 edit_ab) edit_bc) edit_cd)))) 0
       = ''a''"
proof -
  have "setMaxHistorySize manager0 0 = Some capped"
    by (simp add: setMaxHistorySize_def shift_loop_returns capped_def manager0_def
        UndoRedoManager_def)
  moreover have "history (execute capped edit_ab) = []
   \<and> history (execute (execute capped edit_ab) edit_bc) = []
   \<and> currentIndex (execute (execute capped edit_ab) edit_bc) = - 1
   \<and> fst (undo (execute (execute capped edit_ab) edit_bc)) = Inr False
   \<and> textContent (world (snd (undo (execute (execute capped edit_ab) edit_bc)))) 0 = ''c''"
    by (simp add: capped_def manager0_def edit_ab_def edit_bc_def run_defs)
  moreover have "textContent (world manager0) 0 = ''a''
   \<and> fst (undo (execute (execute manager0 edit_zb) edit_bc)) = Inr True
   \<and> textContent (world (snd (undo (execute (execute manager0 edit_zb) edit_bc)))) 0 = ''zzz''"
    by (simp add: manager0_def edit_zb_def edit_bc_def run_defs)
  moreover have "textContent (world (execute manager0 edit_ab)) 0 = ''b''
   \<and> length (history (execute (execute (execute manager0 edit_ab) edit_bc) edit_cd)) = 1
   \<and> fst (undo (execute (execute (execute manager0 edit_ab) edit_bc) edit_cd)) = Inr True
   \<and> textContent
        (world (snd (undo (execute (execute (execute manager0 edit_ab) edit_bc) edit_cd)))) 0
       = ''a''"
    by (simp add: manager0_def edit_ab_def edit_bc_def edit_cd_def run_defs)
  ultimately show ?thesis by blast
qed

text \<open>
  C7 (amended). In a state whose cursor lies within the history and whose history may
  hold at least one entry, let a text edit be executed that is not itself combined with
  the entry before it, and then a second text edit of the same element whose stamp is
  less than 1000 ms later. The first edit becomes the current entry; the second is fused
  into it: no entry is appended, the cursor stays, no event is dispatched and the
  element shows the new text. A following \<^verbatim>\<open>undo\<close> succeeds and writes the old text
  that the first edit was created with, not the intermediate text; that is the
  element's text from before the first edit whenever the first edit recorded it.
\<close>

theorem C7_two_text_edits_fuse:
  assumes ok: "cursor_ok s" and cap: "1 \<le> maxHistorySize s"
    and fac: "commandFactories s ''textEdit'' = Some textEdit_factory"
    and c1: "createCommand s ''textEdit'' p1 t1 = Inr c1"
    and fresh: "try_combine (nth_opt (history s) (currentIndex s)) c1 = None"
    and c2: "createCommand (execute s c1) ''textEdit'' p2 t2 = Inr c2"
    and el: "element p1 = element p2"
    and near: "t2 - t1 < 1000"
  shows "nth_opt (history (execute s c1)) (currentIndex (execute s c1)) = Some c1
     \<and> length (history (execute (execute s c1) c2)) = length (history (execute s c1))
     \<and> currentIndex (execute (execute s c1) c2) = currentIndex (execute s c1)
     \<and> events (execute (execute s c1) c2) = events (execute s c1)
     \<and> textContent (world (execute (execute s c1) c2)) (element p1) = newText p2
     \<and> fst (undo (execute (execute s c1) c2)) = Inr True
     \<and> textContent (world (snd (undo (execute (execute s c1) c2)))) (element p1) = oldText p1
     \<and> (oldText p1 = textContent (world s) (element p1) \<longrightarrow>
          textContent (world (snd (undo (execute (execute s c1) c2)))) (element p1)
            = textContent (world s) (element p1))"
proof -
  have c1': "c1 = Command ''textEdit'' \<lparr>payload = p1, timestamp = t1\<rparr>
                    (textEdit_execute p1) (textEdit_undo p1) (Some textEdit_combine)"
    using c1 fac by (simp add: createCommand_def textEdit_factory_def)
  have run: "cmd_execute c1 (world s) = (True, snd (textEdit_execute p1 (world s)))"
    by (simp add: c1' textEdit_execute_def)
  note app = execute_appends[OF ok cap fresh run]
  have a: "nth_opt (history (execute s c1)) (currentIndex (execute s c1)) = Some c1"
    "currentIndex (execute s c1) = int (length (history (execute s c1))) - 1"
    "commandFactories (execute s c1) = commandFactories s"
    using app by blast+
  have cur: "nth_opt (history (execute s c1)) (currentIndex (execute s c1)) =
      Some (Command ''textEdit'' \<lparr>payload = p1, timestamp = t1\<rparr>
              (textEdit_execute p1) (textEdit_undo p1) (Some textEdit_combine))"
    using a(1) c1' by simp
  have fac': "commandFactories (execute s c1) ''textEdit'' = Some textEdit_factory"
    using a(3) fac by simp
  from textEdit_fuses_into_current[OF cur a(2) fac' c2] el near a(1)
  show ?thesis by simp
qed

text \<open>
  C7 (witness). From the constructor's state the edit from \<open>a\<close> to \<open>b\<close> is executed and,
  500 ms later, the edit from \<open>b\<close> to \<open>c\<close>: the history keeps its one entry, and
  \<^verbatim>\<open>undo\<close> restores \<open>a\<close>, the text before the first edit, not \<open>b\<close>.
\<close>

theorem C7_two_text_edits_fuse_witness:
  "cursor_ok manager0 \<and> 1 \<le> maxHistorySize manager0
   \<and> createCommand manager0 ''textEdit'' \<lparr>element = 0, newText = ''b'', oldText = ''a''\<rparr> 0
       = Inr edit_ab
   \<and> try_combine (nth_opt (history manager0) (currentIndex manager0)) edit_ab = None
   \<and> createCommand (execute manager0 edit_ab) ''textEdit''
         \<lparr>element = 0, newText = ''c'', oldText = ''b''\<rparr> 500 = Inr edit_bc
   \<and> oldText \<lparr>element = 0, newText = ''b'', oldText = ''a''\<rparr> = textContent (world manager0) 0
   \<and> history (execute manager0 edit_ab) = [edit_ab]
   \<and> length (history (execute (execute manager0 edit_ab) edit_bc)) = 1
   \<and> currentIndex (execute (execute manager0 edit_ab) edit_bc) = 0
   \<and> textContent (world (execute (execute manager0 edit_ab) edit_bc)) 0 = ''c''
   \<and> fst (undo (execute (execute manager0 edit_ab) edit_bc)) = Inr True
   \<and> textContent (world (snd (undo (execute (execute manager0 edit_ab) edit_bc)))) 0 = ''a''"
proof -
  let ?p1 = "\<lparr>element = 0, newText = ''b'', oldText = ''a''\<rparr>"
  let ?p2 = "\<lparr>element = 0, newText = ''c'', oldText = ''b''\<rparr>"
  have ok: "cursor_ok manager0" and cap: "1 \<le> maxHistorySize manager0"
    and fac: "commandFactories manager0 ''textEdit'' = Some textEdit_factory"
    by (simp_all add: cursor_ok_def manager0_def UndoRedoManager_def)
  have c1: "createCommand manager0 ''textEdit'' ?p1 0 = Inr edit_ab"
    by (simp add: createCommand_def fac textEdit_factory_def edit_ab_def)
  have fresh: "try_combine (nth_opt (history manager0) (currentIndex manager0)) edit_ab = None"
    by (simp add: manager0_def UndoRedoManager_def nth_opt_def)
  have h: "history (execute manager0 edit_ab) = [edit_ab]"
    "currentIndex (execute manager0 edit_ab) = 0"
    "commandFactories (execute manager0 edit_ab) ''textEdit'' = Some textEdit_factory"
    by (simp_all add: manager0_def edit_ab_def run_defs)
  have c2: "createCommand (execute manager0 edit_ab) ''textEdit'' ?p2 500 = Inr edit_bc"
    by (simp add: createCommand_def h textEdit_factory_def edit_bc_def)
  have old: "oldText ?p1 = textContent (world manager0) 0"
    by (simp add: manager0_def UndoRedoManager_def)
  from C7_two_text_edits_fuse [OF ok cap fac c1 fresh c2] h ok cap c1 fresh c2 old
  show ?thesis by simp
qed

text \<open>
  C8 (as stated, refuted). The claim wants the cursor to be \<open>-1\<close> exactly when the
  history is empty and at least 0 otherwise. After one command has been executed and
  undone the history still holds the command and the cursor is \<open>-1\<close>.
\<close>

theorem C8_cursor_counterexample:
  "reachable manager0 undone \<and> history undone = [edit_ab] \<and> history undone \<noteq> []
   \<and> currentIndex undone = - 1 \<and> \<not> (0 \<le> currentIndex undone)"
proof -
  have "history undone = [edit_ab] \<and> history undone \<noteq> []
      \<and> currentIndex undone = - 1 \<and> \<not> (0 \<le> currentIndex undone)"
    by (simp add: undone_def manager0_def edit_ab_def run_defs)
  with undone_reachable show ?thesis by blast
qed

text \<open>
  C8 (amended). At every state reached from the constructor's state by calls of
  \<^verbatim>\<open>execute\<close>, \<^verbatim>\<open>undo\<close>, \<^verbatim>\<open>redo\<close>, \<^verbatim>\<open>startBatch\<close>, \<^verbatim>\<open>addToBatch\<close>,
  \<^verbatim>\<open>endBatch\<close>, \<^verbatim>\<open>clearHistory\<close> and by calls of \<^verbatim>\<open>setMaxHistorySize\<close> that drop no more
  entries than have been applied, the cursor satisfies \<open>-1 \<le> currentIndex < history.length\<close>.
  So the cursor is \<open>-1\<close> whenever the history is empty; it is \<open>-1\<close> as well when every
  entry of a history that is not empty has been undone.
\<close>

theorem C8_cursor_within_history:
  "reachable (UndoRedoManager styleChange elementAdd elementRemove attributeChange w) s \<Longrightarrow>
   - 1 \<le> currentIndex s \<and> currentIndex s < int (length (history s))
   \<and> (history s = [] \<longrightarrow> currentIndex s = - 1)"
proof -
  assume r: "reachable (UndoRedoManager styleChange elementAdd elementRemove attributeChange w) s"
  have "cursor_ok (UndoRedoManager styleChange elementAdd elementRemove attributeChange w)"
    by (simp add: cursor_ok_def UndoRedoManager_def)
  with r have "cursor_ok s" by (rule reachable_cursor_ok)
  then show ?thesis by (auto simp: cursor_ok_def)
qed

text \<open>
  C8 (witness). The amended statement at the state in which the one command has been
  undone.
\<close>

theorem C8_cursor_within_history_witness:
  "reachable manager0 undone \<and> - 1 \<le> currentIndex undone
   \<and> currentIndex undone < int (length (history undone))"
  using C8_cursor_within_history
      [of plain_factory plain_factory plain_factory plain_factory
          "\<lparr>textContent = (\<lambda>n. ''a'')\<rparr>" undone]
    undone_reachable
  by (simp add: manager0_def)

text \<open>
  C9 (as stated, refuted). The claim takes the success of every \<^verbatim>\<open>undo\<close> and \<^verbatim>\<open>redo\<close>
  call to be necessary for termination, and to be the same as every traversed routine
  returning true. Neither holds. A snapshot is recorded at index \<open>-1\<close> before a command
  whose \<^verbatim>\<open>undo\<close> fails the first time only: the first \<^verbatim>\<open>undo\<close> call fails, the
  \<^verbatim>\<open>while\<close> statement repeats it, and \<^verbatim>\<open>restoreSnapshot\<close> returns true with the cursor
  at \<open>-1\<close>. And a snapshot is recorded at index 0 and the history is cleared: no routine
  ever returns false, yet \<^verbatim>\<open>redo\<close> has nothing to redo and \<^verbatim>\<open>restoreSnapshot\<close> never
  returns.
\<close>

theorem C9_restoreSnapshot_counterexample:
  "snapshots retried ''snap'' = Some \<lparr>historyIndex = - 1, s_timestamp = 0\<rparr>
   \<and> fst (undo retried) = Inr False
   \<and> map_option fst (restoreSnapshot retried ''snap'') = Some (Inr True)
   \<and> map_option (currentIndex \<circ> snd) (restoreSnapshot retried ''snap'') = Some (- 1)
   \<and> snapshots truncated ''snap'' = Some \<lparr>historyIndex = 0, s_timestamp = 0\<rparr>
   \<and> history truncated = []
   \<and> restoreSnapshot truncated ''snap'' = None"
proof -
  have t: "snapshots truncated ''snap'' = Some \<lparr>historyIndex = 0, s_timestamp = 0\<rparr>"
    "history truncated = []" "currentIndex truncated = - 1"
    by (simp_all add: truncated_def manager0_def edit_ab_def run_defs)
  have "redo truncated = (Inr False, truncated)"
    by (simp add: redo_def canRedo_def t)
  then have "redo_loop truncated 0 = None"
    by (rule redo_loop_stuck) (simp add: t)
  moreover have "undo_loop truncated 0 = Some (Inr (), truncated)"
    by (simp add: undo_loop_done t)
  ultimately have 1: "restoreSnapshot truncated ''snap'' = None"
    by (simp add: restoreSnapshot_def t)
  have r: "snapshots retried ''snap'' = Some \<lparr>historyIndex = - 1, s_timestamp = 0\<rparr>"
    "fst (undo retried) = Inr False"
    by (simp_all add: retried_def manager0_def flaky_def run_defs)
  have c: "currentIndex (snd (undo (snd (undo retried)))) = - 1"
    by (simp add: retried_def manager0_def flaky_def run_defs)
  have "undo_loop retried (- 1) = Some (Inr (), snd (undo (snd (undo retried))))"
    apply (subst undo_loop.simps)
    apply (simp add: retried_def manager0_def flaky_def run_defs)
    apply (subst undo_loop.simps)
    apply (simp add: retried_def manager0_def flaky_def run_defs)
    apply (subst undo_loop.simps)
    apply (simp add: retried_def manager0_def flaky_def run_defs)
    done
  then have 2: "restoreSnapshot retried ''snap''
                 = Some (Inr True, snd (undo (snd (undo retried))))"
    using r(1) c by (simp add: restoreSnapshot_def redo_loop_done)
  show ?thesis
    using t 1 r 2 c by simp
qed

text \<open>
  C9 (amended). \<^verbatim>\<open>restoreSnapshot\<close>, called with a recorded snapshot, returns true with
  the cursor at the recorded index whenever each of the \<^verbatim>\<open>undo\<close> (or \<^verbatim>\<open>redo\<close>) calls
  that separate the cursor from the recorded index returns true; for \<^verbatim>\<open>redo\<close> this
  needs the recorded index to lie within the history still. A call that fails leaves
  the cursor where it was and is repeated: when it also leaves the state as it was, as
  \<^verbatim>\<open>redo\<close> does once nothing is left to redo, \<^verbatim>\<open>restoreSnapshot\<close> never returns.
\<close>

theorem C9_restoreSnapshot_returns_or_hangs:
  "(snapshots s snapshotId = Some snapshot
      \<and> undo_calls_succeed (nat (currentIndex s - historyIndex snapshot)) s
      \<and> redo_calls_succeed (nat (historyIndex snapshot - currentIndex s)) s
     \<longrightarrow> (\<exists>s'. restoreSnapshot s snapshotId = Some (Inr True, s')
               \<and> currentIndex s' = historyIndex snapshot))
   \<and> (snapshots s snapshotId = Some snapshot \<and> currentIndex s < historyIndex snapshot
      \<and> redo s = (Inr False, s)
     \<longrightarrow> restoreSnapshot s snapshotId = None)
   \<and> (snapshots s snapshotId = Some snapshot \<and> historyIndex snapshot < currentIndex s
      \<and> undo s = (Inr False, s)
     \<longrightarrow> restoreSnapshot s snapshotId = None)"
proof (intro conjI impI)
  assume "snapshots s snapshotId = Some snapshot
      \<and> undo_calls_succeed (nat (currentIndex s - historyIndex snapshot)) s
      \<and> redo_calls_succeed (nat (historyIndex snapshot - currentIndex s)) s"
  then show "\<exists>s'. restoreSnapshot s snapshotId = Some (Inr True, s')
               \<and> currentIndex s' = historyIndex snapshot"
    using restoreSnapshot_returns by blast
next
  assume a: "snapshots s snapshotId = Some snapshot \<and> currentIndex s < historyIndex snapshot
      \<and> redo s = (Inr False, s)"
  then have "redo_loop s (historyIndex snapshot) = None"
    by (simp add: redo_loop_stuck)
  moreover have "undo_loop s (historyIndex snapshot) = Some (Inr (), s)"
    using a by (simp add: undo_loop_done)
  ultimately show "restoreSnapshot s snapshotId = None"
    using a by (simp add: restoreSnapshot_def)
next
  assume a: "snapshots s snapshotId = Some snapshot \<and> historyIndex snapshot < currentIndex s
      \<and> undo s = (Inr False, s)"
  then have "undo_loop s (historyIndex snapshot) = None"
    by (simp add: undo_loop_stuck)
  then show "restoreSnapshot s snapshotId = None"
    using a by (simp add: restoreSnapshot_def)
qed

text \<open>
  C9 (witness). The amended statement at three states: two commands executed after a
  snapshot at \<open>-1\<close> are undone by two successful calls; after the history was cleared
  the snapshot at index 0 cannot be reached by \<^verbatim>\<open>redo\<close>; with an \<^verbatim>\<open>undo\<close> that always
  fails the snapshot at \<open>-1\<close> cannot be reached either.
\<close>

theorem C9_restoreSnapshot_returns_or_hangs_witness:
  "undo_calls_succeed 2 snapped
   \<and> map_option fst (restoreSnapshot snapped ''snap'') = Some (Inr True)
   \<and> map_option (currentIndex \<circ> snd) (restoreSnapshot snapped ''snap'') = Some (- 1)
   \<and> redo truncated = (Inr False, truncated)
   \<and> restoreSnapshot truncated ''snap'' = None
   \<and> undo jammed = (Inr False, jammed)
   \<and> restoreSnapshot jammed ''snap'' = None"
proof -
  let ?snap = "\<lparr>historyIndex = - 1, s_timestamp = 0\<rparr>"
  have s: "snapshots snapped ''snap'' = Some ?snap" and c: "currentIndex snapped = 1"
    by (simp_all add: snapped_def manager0_def edit_ab_def mark_def run_defs)
  have u: "undo_calls_succeed (Suc (Suc 0)) snapped"
    by (simp add: snapped_def manager0_def edit_ab_def mark_def run_defs)
  have "snapshots snapped ''snap'' = Some ?snap
      \<and> undo_calls_succeed (nat (currentIndex snapped - historyIndex ?snap)) snapped
      \<and> redo_calls_succeed (nat (historyIndex ?snap - currentIndex snapped)) snapped"
    using s u by (simp add: c numeral_2_eq_2)
  from C9_restoreSnapshot_returns_or_hangs [THEN conjunct1, rule_format, OF this]
  have 1: "map_option fst (restoreSnapshot snapped ''snap'') = Some (Inr True)
   \<and> map_option (currentIndex \<circ> snd) (restoreSnapshot snapped ''snap'') = Some (- 1)"
    by auto
  let ?first = "\<lparr>historyIndex = 0, s_timestamp = 0\<rparr>"
  have t: "snapshots truncated ''snap'' = Some ?first
      \<and> currentIndex truncated < historyIndex ?first
      \<and> redo truncated = (Inr False, truncated)"
    by (simp add: truncated_def manager0_def edit_ab_def run_defs)
  from C9_restoreSnapshot_returns_or_hangs [THEN conjunct2, THEN conjunct1, rule_format, OF t]
  have 2: "restoreSnapshot truncated ''snap'' = None" .
  have j: "history jammed = [stuck]" "currentIndex jammed = 0"
    "snapshots jammed ''snap'' = Some ?snap"
    by (simp_all add: jammed_def manager0_def stuck_def run_defs)
  have "cmd_undo stuck (world jammed) = (False, stuck, world jammed)"
    by (simp add: stuck_def)
  then have uj: "undo jammed = (Inr False, jammed)"
    by (simp add: undo_def canUndo_def nth_opt_def j)
  have v: "snapshots jammed ''snap'' = Some ?snap \<and> historyIndex ?snap < currentIndex jammed
      \<and> undo jammed = (Inr False, jammed)"
    using j uj by simp
  from C9_restoreSnapshot_returns_or_hangs [THEN conjunct2, THEN conjunct2, rule_format, OF v]
  have 3: "restoreSnapshot jammed ''snap'' = None" .
  from 1 2 3 t u uj show ?thesis by (simp add: numeral_2_eq_2)
qed

text \<open>
  C10. When the \<^verbatim>\<open>undo\<close> routine of the selected command returns false, \<^verbatim>\<open>undo\<close>
  returns false, the cursor is as before, no event is dispatched, and the history holds
  the same entries at the same places: every entry but the selected one is untouched, and
  the selected one is that command as its own routine has left it, which for every
  command built by \<^verbatim>\<open>createCommand\<close> is the command as it was (a batch command has its
  array reversed by its routine). When the \<^verbatim>\<open>execute\<close> routine of the command selected
  by \<^verbatim>\<open>redo\<close> returns false, \<^verbatim>\<open>redo\<close> returns false and cursor, events and history are
  as before.
\<close>

theorem C10_failed_undo_redo_keep_history:
  "(canUndo s \<and> nth_opt (history s) (currentIndex s) = Some c
      \<and> cmd_undo c (world s) = (False, c', w')
     \<longrightarrow> fst (undo s) = Inr False
        \<and> currentIndex (snd (undo s)) = currentIndex s
        \<and> events (snd (undo s)) = events s
        \<and> history (snd (undo s)) = (history s)[nat (currentIndex s) := c']
        \<and> map cmd_type (history (snd (undo s))) = map cmd_type (history s)
        \<and> (\<forall>t st ex un cb. c = Command t st ex un cb \<longrightarrow> history (snd (undo s)) = history s))
   \<and> (canRedo s \<and> nth_opt (history s) (currentIndex s + 1) = Some c
      \<and> cmd_execute c (world s) = (False, w')
     \<longrightarrow> fst (redo s) = Inr False
        \<and> currentIndex (snd (redo s)) = currentIndex s
        \<and> events (snd (redo s)) = events s
        \<and> history (snd (redo s)) = history s)"
proof -
  have ty: "cmd_type (fst (snd (cmd_undo c w))) = cmd_type c" for c :: "('a, 'b) command" and w
    by (cases c) (auto split: prod.splits)
  have "canUndo s \<and> nth_opt (history s) (currentIndex s) = Some c
      \<and> cmd_undo c (world s) = (False, c', w')
     \<longrightarrow> map cmd_type ((history s)[nat (currentIndex s) := c']) = map cmd_type (history s)"
    using ty[of c "world s"]
    by (auto simp: nth_opt_def map_update list_update_same_conv split: if_splits)
  then show ?thesis
    by (auto simp: undo_def redo_def nth_opt_def split: prod.splits if_splits)
qed

text \<open>
  C10 (witness). A command whose \<^verbatim>\<open>undo\<close> always fails is the current entry; a command
  whose \<^verbatim>\<open>execute\<close> succeeds once only has been executed and undone.
\<close>

theorem C10_failed_undo_redo_keep_history_witness:
  "canUndo stalled \<and> nth_opt (history stalled) (currentIndex stalled) = Some stuck
   \<and> fst (cmd_undo stuck (world stalled)) = False
   \<and> fst (undo stalled) = Inr False
   \<and> currentIndex (snd (undo stalled)) = currentIndex stalled
   \<and> events (snd (undo stalled)) = events stalled
   \<and> history (snd (undo stalled)) = history stalled
   \<and> canRedo once_undone \<and> nth_opt (history once_undone) (currentIndex once_undone + 1) = Some once
   \<and> fst (cmd_execute once (world once_undone)) = False
   \<and> fst (redo once_undone) = Inr False
   \<and> currentIndex (snd (redo once_undone)) = currentIndex once_undone
   \<and> events (snd (redo once_undone)) = events once_undone
   \<and> history (snd (redo once_undone)) = history once_undone"
proof -
  have a: "canUndo stalled \<and> nth_opt (history stalled) (currentIndex stalled) = Some stuck
      \<and> cmd_undo stuck (world stalled) = (False, stuck, world stalled)"
    by (simp add: stalled_def manager0_def stuck_def run_defs)
  have b: "canRedo once_undone
      \<and> nth_opt (history once_undone) (currentIndex once_undone + 1) = Some once
      \<and> cmd_execute once (world once_undone)
          = (False, \<lparr>textContent = (\<lambda>n. ''a'')(9 := ''used'')\<rparr>)"
    by (simp add: once_undone_def manager0_def once_def run_defs)
  have s: "stuck = Command ''custom''
      \<lparr>payload = \<lparr>element = 1, newText = [], oldText = []\<rparr>, timestamp = 0\<rparr>
      (\<lambda>w. (True, w)) (\<lambda>w. (False, w)) None"
    by (simp add: stuck_def)
  from C10_failed_undo_redo_keep_history [THEN conjunct1, rule_format, OF a]
  have 1: "fst (undo stalled) = Inr False
        \<and> currentIndex (snd (undo stalled)) = currentIndex stalled
        \<and> events (snd (undo stalled)) = events stalled
        \<and> history (snd (undo stalled)) = history stalled"
    using s by blast
  from C10_failed_undo_redo_keep_history [THEN conjunct2, rule_format, OF b]
  have 2: "fst (redo once_undone) = Inr False
        \<and> currentIndex (snd (redo once_undone)) = currentIndex once_undone
        \<and> events (snd (redo once_undone)) = events once_undone
        \<and> history (snd (redo once_undone)) = history once_undone" .
  from a b 1 2 show ?thesis by simp
qed

end
